theory Spec2Isabelle
  imports Complex_Main
begin

section \<open>Values and containers\<close>

text \<open>
  \<open>VariableValue = string | number | boolean\<close> (types.ts, variable-storage.ts).
  A JavaScript number is a binary64 value: \<open>Finite q\<close> is the finite value that equals
  the rational \<open>q\<close> (the positive zero for \<open>q = 0\<close>), and the negative zero, the two
  infinities and NaN are values of their own.

  A \<open>char\<close> of a string is a UTF-16 code unit below \<open>0x100\<close>; text with code units
  above that is outside the model.
\<close>

datatype js_number = Finite rat | NegZero | PosInfinity | NegInfinity | NaN

datatype variable_value = VStr string | VNum js_number | VBool bool

text \<open>
  A JavaScript \<open>Map<string, V>\<close>: an association list in insertion order.
  \<open>Map.set\<close> overwrites the value of a key that is present, in place, and appends a
  new key at the end; \<open>Map.get\<close> returns \<open>undefined\<close> (here \<open>None\<close>) for a
  missing key; \<open>Array.from(m.keys())\<close> lists the keys in insertion order.
\<close>

type_synonym 'v js_map = "(string \<times> 'v) list"

definition map_get :: "'v js_map \<Rightarrow> string \<Rightarrow> 'v option" where
  "map_get m k = map_of m k"

fun map_set :: "'v js_map \<Rightarrow> string \<Rightarrow> 'v \<Rightarrow> 'v js_map" where
  "map_set [] k v = [(k, v)]"
| "map_set ((k', v') # m) k v =
     (if k' = k then (k', v) # m else (k', v') # map_set m k v)"

definition map_keys :: "'v js_map \<Rightarrow> string list" where
  "map_keys m = map fst m"

section \<open>Runtime events (types.ts)\<close>

record option_info =
  opt_id :: nat
  opt_lineId :: string
  opt_enabled :: bool
  opt_destinationNode :: "string option"

datatype runtime_event =
    LineEvent string "string list"
  | OptionsEvent "option_info list"
  | CommandEvent string
  | NodeStartEvent string
  | NodeCompleteEvent string
  | DialogueCompleteEvent
  | PrepareForLinesEvent "string list"

section \<open>The dialogue tree and the reference runtime (dialogue-tree-runtime.ts)\<close>

record player_choice =
  choice_id :: string
  choice_text :: string
  choice_nextNodeId :: "string option"
  choice_lineId :: "string option"
  choice_enabled :: "bool option"

text \<open>
  \<open>DialogueNode = NpcNode | PlayerNode\<close>. \<open>loadProgram\<close> casts parsed JSON to a
  tree without checking it, and \<open>populateEventsForCurrentNode\<close> has a last branch for a
  node that is neither kind, so the model keeps a third constructor for such a node.
\<close>

datatype dialogue_node =
    NpcNode (node_id: string) (npc_speaker: "string option") (npc_content: string)
      (npc_lineId: "string option") (npc_substitutions: "string list option")
      (npc_nextNodeId: "string option")
  | PlayerNode (node_id: string) (player_choices: "player_choice list")
  | OtherNode (node_id: string)

text \<open>
  \<open>nodes: Record<string, DialogueNode>\<close> is only ever read by key, so it is a partial
  map. (Properties that a JavaScript object inherits from its prototype are not keys of
  the model.)
\<close>

record dialogue_tree =
  tree_id :: string
  tree_title :: "string option"
  startNodeId :: string
  nodes :: "string \<rightharpoonup> dialogue_node"

record options_cache =
  cache_choices :: "player_choice list"
  cache_nodeId :: string

record dialogue_tree_runtime =
  tree :: dialogue_tree
  currentNodeId :: "string option"
  isComplete :: bool
  waitingForOption :: bool
  pendingEvents :: "runtime_event list"
  pendingNextNodeId :: "string option"
  startedNodes :: "string set"
  variables :: "variable_value js_map"
  optionCache :: "options_cache option"

text \<open>The constructor: the field initialisers, then the two assignments.\<close>

definition new_runtime :: "dialogue_tree \<Rightarrow> dialogue_tree_runtime" where
  "new_runtime t =
     \<lparr> tree = t, currentNodeId = Some (startNodeId t), isComplete = False,
       waitingForOption = False, pendingEvents = [], pendingNextNodeId = None,
       startedNodes = {}, variables = [], optionCache = None \<rparr>"

definition setNode :: "dialogue_tree_runtime \<Rightarrow> string \<Rightarrow> dialogue_tree_runtime" where
  "setNode r nodeName =
     r\<lparr> currentNodeId := Some nodeName, waitingForOption := False, pendingEvents := [],
        pendingNextNodeId := None, optionCache := None \<rparr>"

text \<open>\<open>a || b\<close> on an optional string: an absent or empty \<open>a\<close> is falsy.\<close>

definition or_else :: "string option \<Rightarrow> string \<Rightarrow> string" where
  "or_else a b = (case a of None \<Rightarrow> b | Some s \<Rightarrow> if s = [] then b else s)"

definition to_option_info :: "nat \<times> player_choice \<Rightarrow> option_info" where
  "to_option_info p =
     \<lparr> opt_id = fst p,
       opt_lineId = or_else (choice_lineId (snd p)) (choice_id (snd p)),
       opt_enabled = (case choice_enabled (snd p) of None \<Rightarrow> True | Some b \<Rightarrow> b),
       opt_destinationNode = choice_nextNodeId (snd p) \<rparr>"

definition push_event :: "dialogue_tree_runtime \<Rightarrow> runtime_event \<Rightarrow> dialogue_tree_runtime" where
  "push_event r ev = r\<lparr> pendingEvents := pendingEvents r @ [ev] \<rparr>"

definition populate_node :: "dialogue_tree_runtime \<Rightarrow> dialogue_node \<Rightarrow> dialogue_tree_runtime" where
  "populate_node r node =
     (case node of
        NpcNode nid speaker content lid subs nxt \<Rightarrow>
          (let lineId = or_else lid nid;
               substitutions = (case subs of None \<Rightarrow> [] | Some ss \<Rightarrow> ss);
               r1 = r\<lparr> pendingNextNodeId := nxt \<rparr>;
               r2 = push_event r1 (PrepareForLinesEvent [lineId]);
               r3 = push_event r2 (LineEvent lineId substitutions)
           in push_event r3 (NodeCompleteEvent nid))
      | PlayerNode nid chs \<Rightarrow>
          (let options = map to_option_info (enumerate 0 chs);
               r1 = push_event r (PrepareForLinesEvent (map opt_lineId options));
               r2 = push_event r1 (OptionsEvent options)
           in r2\<lparr> optionCache := Some \<lparr> cache_choices = chs, cache_nodeId = nid \<rparr> \<rparr>)
      | OtherNode nid \<Rightarrow>
          (push_event r DialogueCompleteEvent)\<lparr> isComplete := True \<rparr>)"

text \<open>
  \<open>if (!this.currentNodeId)\<close> is taken for \<open>null\<close> and for the empty string;
  that branch queues \<open>dialogue_complete\<close> without setting the completion flag
  (\<open>continue\<close> sets it when it hands the event out).
\<close>

definition populateEventsForCurrentNode :: "dialogue_tree_runtime \<Rightarrow> dialogue_tree_runtime" where
  "populateEventsForCurrentNode r =
     (if isComplete r then r
      else case currentNodeId r of
        None \<Rightarrow> push_event r DialogueCompleteEvent
      | Some cid \<Rightarrow>
          if cid = [] then push_event r DialogueCompleteEvent
          else
            (case nodes (tree r) cid of
               None \<Rightarrow> (push_event r DialogueCompleteEvent)\<lparr> isComplete := True \<rparr>
             | Some node \<Rightarrow>
                 if node_id node \<notin> startedNodes r then
                   push_event (r\<lparr> startedNodes := insert (node_id node) (startedNodes r) \<rparr>)
                     (NodeStartEvent (node_id node))
                 else populate_node r node))"

text \<open>The three \<open>if\<close> statements of \<open>continue\<close> that follow the \<open>shift\<close>.\<close>

definition after_event :: "dialogue_tree_runtime \<Rightarrow> runtime_event \<Rightarrow> dialogue_tree_runtime" where
  "after_event r ev =
     (case ev of
        OptionsEvent os \<Rightarrow> r\<lparr> waitingForOption := True \<rparr>
      | NodeCompleteEvent n \<Rightarrow> r\<lparr> currentNodeId := pendingNextNodeId r, pendingNextNodeId := None \<rparr>
      | DialogueCompleteEvent \<Rightarrow> r\<lparr> isComplete := True \<rparr>
      | _ \<Rightarrow> r)"

text \<open>\<open>continue()\<close>: the event returned (\<open>None\<close> for \<open>null\<close>) and the new state.\<close>

definition rt_continue :: "dialogue_tree_runtime \<Rightarrow> runtime_event option \<times> dialogue_tree_runtime" where
  "rt_continue r =
     (if isComplete r \<or> waitingForOption r then (None, r)
      else
        let r1 = (if pendingEvents r = [] then populateEventsForCurrentNode r else r)
        in case pendingEvents r1 of
             [] \<Rightarrow> (None, r1)
           | ev # rest \<Rightarrow> (Some ev, after_event (r1\<lparr> pendingEvents := rest \<rparr>) ev))"

text \<open>
  \<open>setSelectedOption\<close> throws; the model returns the error raised, if any, together with
  the state the call leaves behind. \<open>optionId\<close> is a JavaScript number: an integer
  here, and \<open>choices[optionId]\<close> is \<open>undefined\<close> for a negative index and for one
  past the end (a fractional index reads \<open>undefined\<close> too, like an index out of range).
\<close>

datatype runtime_error = NotWaitingForOption | InvalidOptionId int

definition choice_at :: "player_choice list \<Rightarrow> int \<Rightarrow> player_choice option" where
  "choice_at cs i = (if 0 \<le> i \<and> i < int (length cs) then Some (cs ! nat i) else None)"

definition setSelectedOption ::
    "dialogue_tree_runtime \<Rightarrow> int \<Rightarrow> runtime_error option \<times> dialogue_tree_runtime" where
  "setSelectedOption r optionId =
     (case optionCache r of
        None \<Rightarrow> (Some NotWaitingForOption, r)
      | Some cache \<Rightarrow>
          if waitingForOption r then
            (case choice_at (cache_choices cache) optionId of
               None \<Rightarrow> (Some (InvalidOptionId optionId), r)
             | Some choice \<Rightarrow>
                 (None,
                  (push_event
                     (r\<lparr> waitingForOption := False, pendingNextNodeId := choice_nextNodeId choice \<rparr>)
                     (NodeCompleteEvent (cache_nodeId cache)))
                  \<lparr> optionCache := None \<rparr>))
          else (Some NotWaitingForOption, r))"

definition rt_getVariable :: "dialogue_tree_runtime \<Rightarrow> string \<Rightarrow> variable_value option" where
  "rt_getVariable r name = map_get (variables r) name"

definition rt_setVariable ::
    "dialogue_tree_runtime \<Rightarrow> string \<Rightarrow> variable_value \<Rightarrow> dialogue_tree_runtime" where
  "rt_setVariable r name v = r\<lparr> variables := map_set (variables r) name v \<rparr>"

definition rt_getVariableNames :: "dialogue_tree_runtime \<Rightarrow> string list" where
  "rt_getVariableNames r = map_keys (variables r)"

definition isWaitingForOption :: "dialogue_tree_runtime \<Rightarrow> bool" where
  "isWaitingForOption r = waitingForOption r"

definition isDialogueComplete :: "dialogue_tree_runtime \<Rightarrow> bool" where
  "isDialogueComplete r = isComplete r"

text \<open>\<open>reset()\<close>: the seven assignments of the source, in its order.\<close>

definition rt_reset :: "dialogue_tree_runtime \<Rightarrow> dialogue_tree_runtime" where
  "rt_reset r =
     r\<lparr> currentNodeId := Some (startNodeId (tree r)), waitingForOption := False,
        isComplete := False, pendingEvents := [], pendingNextNodeId := None,
        startedNodes := {}, optionCache := None \<rparr>"

section \<open>The line provider (line-provider.ts)\<close>

record line_entry =
  entry_id :: string
  entry_text :: string
  entry_metadata :: "(string \<times> string) list option"

record localized_line =
  ll_text :: string
  ll_lineId :: string
  ll_substitutions :: "string list"
  ll_metadata :: "(string \<times> string) list option"

definition starts_with :: "string \<Rightarrow> string \<Rightarrow> bool" where
  "starts_with s p = (take (length p) s = p)"

definition ends_with :: "string \<Rightarrow> string \<Rightarrow> bool" where
  "ends_with s p = starts_with (rev s) (rev p)"

text \<open>
  \<open>String.prototype.replace(searchString, replaceString)\<close> with a string pattern:
  the first occurrence of the pattern is found (\<open>index_split\<close> returns the text before
  it and the text after it), and the replacement string is expanded by the language's
  \<open>GetSubstitution\<close>: \<open>$$\<close> stands for a dollar sign, \<open>$&\<close> for the matched
  text, \<open>$`\<close> for the text before the match and \<open>$'\<close> for the text after it.
  With a string pattern there are no capture groups, so every other \<open>$\<close> is literal.
\<close>

fun index_split :: "string \<Rightarrow> string \<Rightarrow> string \<Rightarrow> (string \<times> string) option" where
  "index_split pat pre [] = (if pat = [] then Some (pre, []) else None)"
| "index_split pat pre (c # cs) =
     (if starts_with (c # cs) pat then Some (pre, drop (length pat) (c # cs))
      else index_split pat (pre @ [c]) cs)"

fun get_substitution :: "string \<Rightarrow> string \<Rightarrow> string \<Rightarrow> string \<Rightarrow> string" where
  "get_substitution matched pre post [] = []"
| "get_substitution matched pre post [c] = [c]"
| "get_substitution matched pre post (c # d # r) =
     (if c = CHR ''$'' then
        (if d = CHR ''$'' then CHR ''$'' # get_substitution matched pre post r
         else if d = CHR ''&'' then matched @ get_substitution matched pre post r
         else if d = CHR 0x60 then pre @ get_substitution matched pre post r
         else if d = CHR 0x27 then post @ get_substitution matched pre post r
         else c # get_substitution matched pre post (d # r))
      else c # get_substitution matched pre post (d # r))"

definition js_replace :: "string \<Rightarrow> string \<Rightarrow> string \<Rightarrow> string" where
  "js_replace s pat rep =
     (case index_split pat [] s of
        None \<Rightarrow> s
      | Some p \<Rightarrow> fst p @ get_substitution pat (fst p) (snd p) rep @ snd p)"

text \<open>The decimal digits of an array index, as \<open>`${idx}`\<close> prints them.\<close>

fun show_nat :: "nat \<Rightarrow> string" where
  "show_nat n =
     (if n < 10 then [''0123456789'' ! n]
      else show_nat (n div 10) @ [''0123456789'' ! (n mod 10)])"

declare show_nat.simps [simp del]

definition placeholder :: "nat \<Rightarrow> string" where
  "placeholder idx = ''{'' @ show_nat idx @ ''}''"

text \<open>\<open>applySubstitutions\<close>: the \<open>forEach\<close> runs over the substitutions with their indices.\<close>

definition applySubstitutions :: "string \<Rightarrow> string list \<Rightarrow> string" where
  "applySubstitutions text subs =
     foldl (\<lambda>result p. js_replace result (placeholder (fst p)) (snd p)) text (enumerate 0 subs)"

text \<open>\<open>MapLineProvider.getLine\<close>; the provider's \<open>Map\<close> is only read here.\<close>

definition getLine :: "(string \<rightharpoonup> line_entry) \<Rightarrow> string \<Rightarrow> string list \<Rightarrow> localized_line option" where
  "getLine lines lineId substitutions =
     (case lines lineId of
        None \<Rightarrow> None
      | Some entry \<Rightarrow>
          Some \<lparr> ll_text = applySubstitutions (entry_text entry) substitutions,
                 ll_lineId = lineId, ll_substitutions = substitutions,
                 ll_metadata = entry_metadata entry \<rparr>)"

section \<open>The command dispatcher (command-dispatcher.ts)\<close>

text \<open>
  A handler acts on the runner only through its \<open>CommandContext\<close>, so a handler is the
  list of context calls it makes for given arguments, in order. (The built-in handlers
  never call \<open>getVariable\<close>.)
\<close>

datatype ctx_action = CtxSetVariable string variable_value | CtxStop | CtxContinue

type_synonym command_handler = "string list \<Rightarrow> ctx_action list"

record command_dispatcher =
  handlers :: "command_handler js_map"
  defaultHandler :: "command_handler option"

text \<open>
  White space as \<open>trim\<close> and \<open>parseFloat\<close> skip it: tab, line feed, vertical tab, form
  feed, carriage return, space and the no-break space \<open>U+00A0\<close>. \<open>toLowerCase\<close>
  lowers the letters A to Z and the capital letters of \<open>U+00C0\<close> to \<open>U+00DE\<close> (the
  multiplication sign \<open>U+00D7\<close> between them is not a letter).
\<close>

definition is_space :: "char \<Rightarrow> bool" where
  "is_space c =
     (c \<in> set [CHR 0x09, CHR 0x0A, CHR 0x0B, CHR 0x0C, CHR 0x0D, CHR '' '', CHR 0xA0])"

definition trim :: "string \<Rightarrow> string" where
  "trim s = rev (dropWhile is_space (rev (dropWhile is_space s)))"

definition upper_letters :: string where
  "upper_letters =
     ''ABCDEFGHIJKLMNOPQRSTUVWXYZ'' @
     [CHR 0xC0, CHR 0xC1, CHR 0xC2, CHR 0xC3, CHR 0xC4, CHR 0xC5, CHR 0xC6, CHR 0xC7,
      CHR 0xC8, CHR 0xC9, CHR 0xCA, CHR 0xCB, CHR 0xCC, CHR 0xCD, CHR 0xCE, CHR 0xCF,
      CHR 0xD0, CHR 0xD1, CHR 0xD2, CHR 0xD3, CHR 0xD4, CHR 0xD5, CHR 0xD6,
      CHR 0xD8, CHR 0xD9, CHR 0xDA, CHR 0xDB, CHR 0xDC, CHR 0xDD, CHR 0xDE]"

definition lower_letters :: string where
  "lower_letters =
     ''abcdefghijklmnopqrstuvwxyz'' @
     [CHR 0xE0, CHR 0xE1, CHR 0xE2, CHR 0xE3, CHR 0xE4, CHR 0xE5, CHR 0xE6, CHR 0xE7,
      CHR 0xE8, CHR 0xE9, CHR 0xEA, CHR 0xEB, CHR 0xEC, CHR 0xED, CHR 0xEE, CHR 0xEF,
      CHR 0xF0, CHR 0xF1, CHR 0xF2, CHR 0xF3, CHR 0xF4, CHR 0xF5, CHR 0xF6,
      CHR 0xF8, CHR 0xF9, CHR 0xFA, CHR 0xFB, CHR 0xFC, CHR 0xFD, CHR 0xFE]"

definition to_lower_char :: "char \<Rightarrow> char" where
  "to_lower_char c =
     (case map_of (zip upper_letters lower_letters) c of
        None \<Rightarrow> c
      | Some l \<Rightarrow> l)"

definition toLowerCase :: "string \<Rightarrow> string" where
  "toLowerCase s = map to_lower_char s"

text \<open>
  \<open>tokenize\<close>: the loop over the characters, with the four local variables of the
  source. \<open>quoteChar\<close> is the empty string outside quotes, which no character equals.
\<close>

fun tokenize_loop ::
    "string list \<Rightarrow> string \<Rightarrow> bool \<Rightarrow> char option \<Rightarrow> string \<Rightarrow> string list" where
  "tokenize_loop tokens current inQuotes quoteChar [] =
     (if current = [] then tokens else tokens @ [current])"
| "tokenize_loop tokens current inQuotes quoteChar (c # cs) =
     (if (c = CHR 0x22 \<or> c = CHR 0x27) \<and> \<not> inQuotes then
        tokenize_loop tokens current True (Some c) cs
      else if quoteChar = Some c \<and> inQuotes then
        tokenize_loop tokens current False None cs
      else if c = CHR '' '' \<and> \<not> inQuotes then
        (if current = [] then tokenize_loop tokens current inQuotes quoteChar cs
         else tokenize_loop (tokens @ [current]) [] inQuotes quoteChar cs)
      else tokenize_loop tokens (current @ [c]) inQuotes quoteChar cs)"

definition tokenize :: "string \<Rightarrow> string list" where
  "tokenize text = tokenize_loop [] [] False None text"

definition parseCommand :: "string \<Rightarrow> (string \<times> string list) option" where
  "parseCommand text =
     (let trimmed = trim text in
      if trimmed = [] then None
      else case tokenize trimmed of
             [] \<Rightarrow> None
           | command # args \<Rightarrow> Some (command, args))"

text \<open>\<open>dispatch\<close>: whether the command was handled, and the context calls made.\<close>

definition dispatch :: "command_dispatcher \<Rightarrow> string \<Rightarrow> bool \<times> ctx_action list" where
  "dispatch d commandText =
     (case parseCommand commandText of
        None \<Rightarrow> (False, [])
      | Some (command, args) \<Rightarrow>
          (case map_get (handlers d) (toLowerCase command) of
             Some handler \<Rightarrow> (True, handler args)
           | None \<Rightarrow>
               (case defaultHandler d of
                  Some handler \<Rightarrow> (True, handler (command # args))
                | None \<Rightarrow> (False, []))))"

subsection \<open>\<open>parseFloat\<close>\<close>

text \<open>
  The language's \<open>parseFloat\<close>: leading white space is skipped, then the longest
  prefix that is a \<open>StrDecimalLiteral\<close> is read (an optional sign, then
  \<open>Infinity\<close>, or digits with an optional fraction and exponent, or a fraction that
  starts with the point); whatever follows the prefix is ignored, and with no such prefix
  the result is NaN. \<open>scan_number\<close> also returns the text after the prefix.

  The literal's decimal value is rounded to binary64, to the nearest value with ties
  to the even significand: a value of \<open>2^1024\<close> or more after rounding is
  \<open>Infinity\<close>, and below the normal range the spacing is \<open>2^-1074\<close>, so that a
  small enough value is zero. (For a literal of more than 20 significant digits the
  language lets an implementation round from its first 20 digits; the model rounds the
  exact value, as the engines do.)
\<close>

definition is_digit :: "char \<Rightarrow> bool" where
  "is_digit c = (c \<in> set ''0123456789'')"

definition digits_value :: "string \<Rightarrow> int" where
  "digits_value ds = foldl (\<lambda>n c. 10 * n + (of_char c - 48)) 0 ds"

text \<open>The number of binary digits of a positive integer.\<close>

function bit_length :: "int \<Rightarrow> nat" where
  "bit_length n = (if n \<le> 0 then 0 else Suc (bit_length (n div 2)))"
  by pat_completeness auto
termination
  by (relation "measure nat") auto

declare bit_length.simps [simp del]

text \<open>\<open>binary_exponent a b\<close>: the integer \<open>e\<close> with \<open>2^e \<le> a / b < 2^(e + 1)\<close>, for positive \<open>a\<close> and \<open>b\<close>.\<close>

definition binary_exponent :: "int \<Rightarrow> int \<Rightarrow> int" where
  "binary_exponent a b =
     (let d = int (bit_length a) - int (bit_length b)
      in if b * 2 ^ nat d \<le> a * 2 ^ nat (- d) then d else d - 1)"

text \<open>\<open>round_half_even n d\<close>: the integer nearest to \<open>n / d\<close>, the even one of two equally near.\<close>

definition round_half_even :: "int \<Rightarrow> int \<Rightarrow> int" where
  "round_half_even n d =
     (let m = n div d; r = n mod d
      in if 2 * r < d then m else if d < 2 * r then m + 1 else if even m then m else m + 1)"

definition pow2 :: "int \<Rightarrow> rat" where
  "pow2 e = (if 0 \<le> e then 2 ^ nat e else 1 / 2 ^ nat (- e))"

text \<open>
  \<open>round_binary64 a b\<close>: the binary64 value of the fraction \<open>a / b\<close>. With \<open>s\<close> the
  exponent of the last place (never below \<open>-1074\<close>), the significand is \<open>a / b / 2^s\<close>
  rounded to an integer.
\<close>

definition round_binary64 :: "int \<Rightarrow> int \<Rightarrow> js_number" where
  "round_binary64 a b =
     (if a \<le> 0 then Finite 0
      else
        let s = max (binary_exponent a b) (- 1022) - 52;
            m = round_half_even (a * 2 ^ nat (- s)) (b * 2 ^ nat s)
        in if pow2 1024 \<le> of_int m * pow2 s then PosInfinity
           else Finite (of_int m * pow2 s))"

text \<open>\<open>round_decimal m k\<close>: the binary64 value of \<open>m \<times> 10^k\<close>.\<close>

definition round_decimal :: "int \<Rightarrow> int \<Rightarrow> js_number" where
  "round_decimal m k =
     (if 0 \<le> k then round_binary64 (m * 10 ^ nat k) 1
      else round_binary64 m (10 ^ nat (- k)))"

definition scan_exponent :: "string \<Rightarrow> int \<times> string" where
  "scan_exponent s =
     (case s of
        [] \<Rightarrow> (0, s)
      | c # r \<Rightarrow>
          if c = CHR ''e'' \<or> c = CHR ''E'' then
            (case r of
               [] \<Rightarrow> (0, s)
             | g # r' \<Rightarrow>
                 if g = CHR ''+'' \<or> g = CHR ''-'' then
                   (if takeWhile is_digit r' = [] then (0, s)
                    else ((if g = CHR ''-'' then - digits_value (takeWhile is_digit r')
                           else digits_value (takeWhile is_digit r')),
                          dropWhile is_digit r'))
                 else if takeWhile is_digit r = [] then (0, s)
                 else (digits_value (takeWhile is_digit r), dropWhile is_digit r))
          else (0, s))"

definition scan_unsigned :: "string \<Rightarrow> (js_number \<times> string) option" where
  "scan_unsigned s =
     (if starts_with s ''Infinity'' then Some (PosInfinity, drop 8 s)
      else
        let ip = takeWhile is_digit s; r1 = dropWhile is_digit s in
        case r1 of
          [] \<Rightarrow> if ip = [] then None else Some (round_decimal (digits_value ip) 0, [])
        | c # r2 \<Rightarrow>
            if c = CHR ''.'' then
              (let fp = takeWhile is_digit r2; r3 = dropWhile is_digit r2 in
               if ip = [] \<and> fp = [] then None
               else Some (round_decimal (digits_value (ip @ fp))
                            (fst (scan_exponent r3) - int (length fp)),
                          snd (scan_exponent r3)))
            else if ip = [] then None
            else Some (round_decimal (digits_value ip) (fst (scan_exponent r1)),
                       snd (scan_exponent r1)))"

text \<open>The sign is applied after rounding; the negative of zero is the negative zero.\<close>

definition negate_number :: "js_number \<Rightarrow> js_number" where
  "negate_number n =
     (case n of
        Finite q \<Rightarrow> if q = 0 then NegZero else Finite (- q)
      | NegZero \<Rightarrow> Finite 0
      | PosInfinity \<Rightarrow> NegInfinity
      | NegInfinity \<Rightarrow> PosInfinity
      | NaN \<Rightarrow> NaN)"

definition scan_number :: "string \<Rightarrow> (js_number \<times> string) option" where
  "scan_number s =
     (case s of
        [] \<Rightarrow> None
      | c # r \<Rightarrow>
          if c = CHR ''+'' then scan_unsigned r
          else if c = CHR ''-'' then
            map_option (\<lambda>p. (negate_number (fst p), snd p)) (scan_unsigned r)
          else scan_unsigned s)"

definition parseFloat :: "string \<Rightarrow> js_number" where
  "parseFloat s =
     (case scan_number (dropWhile is_space s) of None \<Rightarrow> NaN | Some p \<Rightarrow> fst p)"

definition isNaN :: "js_number \<Rightarrow> bool" where
  "isNaN n = (n = NaN)"

subsection \<open>The built-in handlers\<close>

text \<open>\<open>valueStr.slice(1, -1)\<close>: without the first and the last character.\<close>

definition slice_inner :: "string \<Rightarrow> string" where
  "slice_inner s = butlast (tl s)"

definition is_quoted :: "string \<Rightarrow> bool" where
  "is_quoted valueStr =
     ((starts_with valueStr [CHR 0x22] \<and> ends_with valueStr [CHR 0x22])
      \<or> (starts_with valueStr [CHR 0x27] \<and> ends_with valueStr [CHR 0x27]))"

definition parseValue :: "string \<Rightarrow> variable_value" where
  "parseValue valueStr =
     (if is_quoted valueStr then VStr (slice_inner valueStr)
      else if valueStr = ''true'' then VBool True
      else if valueStr = ''false'' then VBool False
      else
        let num = parseFloat valueStr
        in if \<not> isNaN num then VNum num else VStr valueStr)"

text \<open>\<open>args[0].replace(/^\$/, '')\<close> and \<open>args.slice(1).join(' ')\<close>.\<close>

definition strip_dollar :: "string \<Rightarrow> string" where
  "strip_dollar s = (case s of [] \<Rightarrow> [] | c # r \<Rightarrow> if c = CHR ''$'' then r else s)"

fun join_space :: "string list \<Rightarrow> string" where
  "join_space [] = []"
| "join_space [a] = a"
| "join_space (a # b # r) = a @ '' '' @ join_space (b # r)"

text \<open>
  The \<open>wait\<close> handler sleeps and then calls \<open>context.continue()\<close>; the delay is time
  only and leaves no trace in the state.
\<close>

definition wait_handler :: command_handler where
  "wait_handler args = [CtxContinue]"

definition stop_handler :: command_handler where
  "stop_handler args = [CtxStop]"

definition set_handler :: command_handler where
  "set_handler args =
     (if 2 \<le> length args
      then [CtxSetVariable (strip_dollar (hd args)) (parseValue (join_space (tl args)))]
      else []) @ [CtxContinue]"

definition createDefaultDispatcher :: command_dispatcher where
  "createDefaultDispatcher =
     \<lparr> handlers = map_set (map_set (map_set [] ''wait'' wait_handler) ''stop'' stop_handler)
                    ''set'' set_handler,
       defaultHandler = None \<rparr>"

section \<open>The dialogue runner (runner.ts)\<close>

record runner_state =
  st_currentNode :: "string option"
  st_isRunning :: bool
  st_isWaitingForOption :: bool
  st_isComplete :: bool
  st_lastEvent :: "runtime_event option"

record runner_option =
  ro_id :: nat
  ro_lineId :: string
  ro_text :: string
  ro_enabled :: bool
  ro_destinationNode :: "string option"

datatype runner_event =
    RunnerLine string string "string list" "(string \<times> string) list option"
  | RunnerOptions "runner_option list"
  | RunnerCommand string bool
  | RunnerNodeStart string
  | RunnerNodeComplete string
  | RunnerDialogueComplete

text \<open>
  The runner over the reference runtime, a \<open>MapLineProvider\<close>, a command dispatcher and
  an \<open>InMemoryVariableStorage\<close>. Event handlers are callbacks of the host; the model
  keeps the events handed to \<open>emit\<close>, in order, as a handler subscribed with
  \<open>onAny\<close> would see them.
\<close>

record dialogue_runner =
  rn_runtime :: dialogue_tree_runtime
  rn_lineProvider :: "string \<rightharpoonup> line_entry"
  rn_commandDispatcher :: command_dispatcher
  rn_variableStorage :: "variable_value js_map"
  rn_state :: runner_state
  rn_stopped :: bool
  rn_emitted :: "runner_event list"

definition initial_state :: runner_state where
  "initial_state =
     \<lparr> st_currentNode = None, st_isRunning = False, st_isWaitingForOption = False,
       st_isComplete = False, st_lastEvent = None \<rparr>"

text \<open>The constructor, with the options given or their defaults.\<close>

definition new_runner ::
    "dialogue_tree_runtime \<Rightarrow> (string \<rightharpoonup> line_entry) option \<Rightarrow> command_dispatcher option \<Rightarrow>
     variable_value js_map option \<Rightarrow> dialogue_runner" where
  "new_runner runtime lineProvider commandDispatcher variableStorage =
     \<lparr> rn_runtime = runtime,
       rn_lineProvider = (case lineProvider of None \<Rightarrow> Map.empty | Some lp \<Rightarrow> lp),
       rn_commandDispatcher =
         (case commandDispatcher of None \<Rightarrow> createDefaultDispatcher | Some d \<Rightarrow> d),
       rn_variableStorage = (case variableStorage of None \<Rightarrow> [] | Some vs \<Rightarrow> vs),
       rn_state = initial_state, rn_stopped = False, rn_emitted = [] \<rparr>"

definition emit :: "dialogue_runner \<Rightarrow> runner_event \<Rightarrow> dialogue_runner" where
  "emit rn ev = rn\<lparr> rn_emitted := rn_emitted rn @ [ev] \<rparr>"

definition syncVariablesToRuntime :: "dialogue_runner \<Rightarrow> dialogue_runner" where
  "syncVariablesToRuntime rn =
     rn\<lparr> rn_runtime :=
           foldl (\<lambda>r p. rt_setVariable r (fst p) (snd p)) (rn_runtime rn) (rn_variableStorage rn) \<rparr>"

definition rn_getVariable :: "dialogue_runner \<Rightarrow> string \<Rightarrow> variable_value option" where
  "rn_getVariable rn name =
     (case map_get (rn_variableStorage rn) name of
        Some v \<Rightarrow> Some v
      | None \<Rightarrow> rt_getVariable (rn_runtime rn) name)"

text \<open>
  \<open>setVariable\<close> is two statements; \<open>setVariable_statements\<close> lists them in the
  order of the source, and \<open>rn_setVariable\<close> runs them one after the other.
\<close>

definition storage_write :: "string \<Rightarrow> variable_value \<Rightarrow> dialogue_runner \<Rightarrow> dialogue_runner" where
  "storage_write name v rn = rn\<lparr> rn_variableStorage := map_set (rn_variableStorage rn) name v \<rparr>"

definition runtime_write :: "string \<Rightarrow> variable_value \<Rightarrow> dialogue_runner \<Rightarrow> dialogue_runner" where
  "runtime_write name v rn = rn\<lparr> rn_runtime := rt_setVariable (rn_runtime rn) name v \<rparr>"

definition setVariable_statements ::
    "string \<Rightarrow> variable_value \<Rightarrow> (dialogue_runner \<Rightarrow> dialogue_runner) list" where
  "setVariable_statements name v = [storage_write name v, runtime_write name v]"

definition run_statements ::
    "(dialogue_runner \<Rightarrow> dialogue_runner) list \<Rightarrow> dialogue_runner \<Rightarrow> dialogue_runner" where
  "run_statements stmts rn = foldl (\<lambda>s f. f s) rn stmts"

definition rn_setVariable :: "dialogue_runner \<Rightarrow> string \<Rightarrow> variable_value \<Rightarrow> dialogue_runner" where
  "rn_setVariable rn name v = run_statements (setVariable_statements name v) rn"

definition rn_stop :: "dialogue_runner \<Rightarrow> dialogue_runner" where
  "rn_stop rn =
     rn\<lparr> rn_stopped := True,
         rn_state := (rn_state rn)\<lparr> st_isRunning := False, st_isComplete := True \<rparr> \<rparr>"

definition getState :: "dialogue_runner \<Rightarrow> runner_state" where
  "getState rn = rn_state rn"

definition rn_reset :: "dialogue_runner \<Rightarrow> dialogue_runner" where
  "rn_reset rn =
     rn\<lparr> rn_stopped := False, rn_runtime := rt_reset (rn_runtime rn), rn_state := initial_state \<rparr>"

text \<open>\<open>localizedLine?.text || `[Missing: ${lineId}]`\<close>: an empty text is falsy.\<close>

definition text_or_missing :: "localized_line option \<Rightarrow> string \<Rightarrow> string" where
  "text_or_missing localizedLine lineId =
     or_else (map_option ll_text localizedLine) (''[Missing: '' @ lineId @ '']'')"

definition handleLine :: "dialogue_runner \<Rightarrow> string \<Rightarrow> string list \<Rightarrow> bool \<times> dialogue_runner" where
  "handleLine rn lineId substitutions =
     (let localizedLine = getLine (rn_lineProvider rn) lineId substitutions
      in (True,
          emit rn (RunnerLine lineId (text_or_missing localizedLine lineId) substitutions
                     (case localizedLine of None \<Rightarrow> None | Some l \<Rightarrow> ll_metadata l))))"

definition localize_option :: "(string \<rightharpoonup> line_entry) \<Rightarrow> option_info \<Rightarrow> runner_option" where
  "localize_option lines opt =
     \<lparr> ro_id = opt_id opt, ro_lineId = opt_lineId opt,
       ro_text = text_or_missing (getLine lines (opt_lineId opt) []) (opt_lineId opt),
       ro_enabled = opt_enabled opt, ro_destinationNode = opt_destinationNode opt \<rparr>"

definition handleOptions :: "dialogue_runner \<Rightarrow> option_info list \<Rightarrow> bool \<times> dialogue_runner" where
  "handleOptions rn opts =
     (let rn1 = rn\<lparr> rn_state := (rn_state rn)\<lparr> st_isWaitingForOption := True \<rparr> \<rparr>
      in (True, emit rn1 (RunnerOptions (map (localize_option (rn_lineProvider rn1)) opts))))"

text \<open>The calls a handler makes on its context reach the runner's own methods.\<close>

definition apply_ctx_action :: "dialogue_runner \<Rightarrow> ctx_action \<Rightarrow> dialogue_runner" where
  "apply_ctx_action rn a =
     (case a of
        CtxSetVariable name v \<Rightarrow> rn_setVariable rn name v
      | CtxStop \<Rightarrow> rn_stop rn
      | CtxContinue \<Rightarrow> rn)"

definition handleCommand :: "dialogue_runner \<Rightarrow> string \<Rightarrow> bool \<times> dialogue_runner" where
  "handleCommand rn text =
     (let d = dispatch (rn_commandDispatcher rn) text;
          rn1 = foldl apply_ctx_action rn (snd d)
      in (False, emit rn1 (RunnerCommand text (fst d))))"

definition handleRuntimeEvent :: "dialogue_runner \<Rightarrow> runtime_event \<Rightarrow> bool \<times> dialogue_runner" where
  "handleRuntimeEvent rn event =
     (case event of
        LineEvent lineId substitutions \<Rightarrow> handleLine rn lineId substitutions
      | OptionsEvent opts \<Rightarrow> handleOptions rn opts
      | CommandEvent text \<Rightarrow> handleCommand rn text
      | NodeStartEvent nodeName \<Rightarrow>
          (False, (emit rn (RunnerNodeStart nodeName))
                    \<lparr> rn_state := (rn_state rn)\<lparr> st_currentNode := Some nodeName \<rparr> \<rparr>)
      | NodeCompleteEvent nodeName \<Rightarrow> (False, emit rn (RunnerNodeComplete nodeName))
      | DialogueCompleteEvent \<Rightarrow> (True, rn)
      | PrepareForLinesEvent lineIds \<Rightarrow> (False, rn))"

subsection \<open>The step loop\<close>

text \<open>
  The \<open>while\<close> loop of \<open>runUntilPause\<close>. It ends because the reference runtime can
  hand out only a bounded number of events before one that pauses the runner: the events
  still queued, then at most \<open>node_start\<close> and \<open>prepare_for_lines\<close> before a line,
  an option set or the end of the dialogue. \<open>loop_measure\<close> counts them.
\<close>

definition pausing :: "runtime_event \<Rightarrow> bool" where
  "pausing ev =
     (case ev of
        LineEvent l ss \<Rightarrow> True
      | OptionsEvent os \<Rightarrow> True
      | DialogueCompleteEvent \<Rightarrow> True
      | _ \<Rightarrow> False)"

definition fresh_steps :: "dialogue_tree_runtime \<Rightarrow> nat" where
  "fresh_steps r =
     (case currentNodeId r of
        None \<Rightarrow> 1
      | Some cid \<Rightarrow>
          if cid = [] then 1
          else (case nodes (tree r) cid of
                  None \<Rightarrow> 1
                | Some node \<Rightarrow> if node_id node \<in> startedNodes r then 2 else 3))"

definition loop_measure :: "dialogue_tree_runtime \<Rightarrow> nat" where
  "loop_measure r =
     (if isComplete r \<or> waitingForOption r then 0
      else if pendingEvents r = [] then fresh_steps r
      else if list_ex pausing (pendingEvents r)
        then Suc (length (takeWhile (\<lambda>e. \<not> pausing e) (pendingEvents r)))
      else length (pendingEvents r) + 4)"

function run_loop :: "dialogue_runner \<Rightarrow> dialogue_runner" where
  "run_loop rn =
     (if \<not> rn_stopped rn \<and> \<not> isDialogueComplete (rn_runtime rn) then
        (case rt_continue (rn_runtime rn) of
           (None, rt') \<Rightarrow> rn\<lparr> rn_runtime := rt' \<rparr>
         | (Some event, rt') \<Rightarrow>
             (let rn1 = rn\<lparr> rn_runtime := rt',
                             rn_state := (rn_state rn)\<lparr> st_lastEvent := Some event \<rparr> \<rparr>;
                  h = handleRuntimeEvent rn1 event
              in if fst h then snd h else run_loop (snd h)))
      else rn)"
  by pat_completeness auto
termination
proof (relation "measure (\<lambda>rn. loop_measure (rn_runtime rn))")
  show "wf (measure (\<lambda>rn. loop_measure (rn_runtime rn)))"
    by simp
next
  fix rn :: dialogue_runner and x y ev xa xb
  assume go: "\<not> rn_stopped rn \<and> \<not> isDialogueComplete (rn_runtime rn)"
    and step: "(x, y) = rt_continue (rn_runtime rn)" "x = Some ev"
    and xa: "xa = rn\<lparr>rn_runtime := y, rn_state := rn_state rn\<lparr>st_lastEvent := Some ev\<rparr>\<rparr>"
    and xb: "xb = handleRuntimeEvent xa ev"
    and no_pause: "\<not> fst xb"
  let ?r = "rn_runtime rn"
  \<comment> \<open>Context calls write variables or stop the runner: the measure does not see them.\<close>
  have act: "loop_measure (rn_runtime (apply_ctx_action s a)) = loop_measure (rn_runtime s)"
    for s a
    by (cases a)
      (simp_all add: apply_ctx_action_def rn_setVariable_def run_statements_def
        setVariable_statements_def storage_write_def runtime_write_def rt_setVariable_def
        rn_stop_def loop_measure_def fresh_steps_def split: option.splits)
  have acts: "loop_measure (rn_runtime (foldl apply_ctx_action s as)) = loop_measure (rn_runtime s)"
    for s as
    by (induction as arbitrary: s) (simp_all add: act)
  \<comment> \<open>An event that does not pause leaves the runtime's control state alone.\<close>
  have handled: "\<not> pausing ev" "loop_measure (rn_runtime (snd xb)) = loop_measure y"
    using no_pause xb xa
    by (cases ev; simp add: handleRuntimeEvent_def handleLine_def handleOptions_def
          handleCommand_def Let_def emit_def pausing_def acts)+
  have quiet: "isComplete (after_event s ev) = isComplete s
      \<and> waitingForOption (after_event s ev) = waitingForOption s
      \<and> pendingEvents (after_event s ev) = pendingEvents s" for s
    using handled(1) by (cases ev) (simp_all add: pausing_def after_event_def)
  have running: "\<not> isComplete ?r"
    using go by (simp add: isDialogueComplete_def)
  have cont: "rt_continue ?r = (Some ev, y)"
    using step by simp
  have "loop_measure y < loop_measure ?r"
  proof (cases "pendingEvents ?r")
    case Nil
    \<comment> \<open>The queue is refilled from the current node.\<close>
    with running cont handled(1) show ?thesis
      by (auto simp: rt_continue_def populateEventsForCurrentNode_def push_event_def Let_def
          loop_measure_def fresh_steps_def pausing_def after_event_def populate_node_def
          split: if_splits option.splits list.splits dialogue_node.splits)
  next
    case (Cons e es)
    with running cont have shape: "ev = e" "y = after_event (?r\<lparr>pendingEvents := es\<rparr>) e"
      and awake: "\<not> waitingForOption ?r"
      by (auto simp: rt_continue_def split: if_splits)
    have flags: "\<not> isComplete y" "\<not> waitingForOption y" "pendingEvents y = es"
      using quiet[of "?r\<lparr>pendingEvents := es\<rparr>"] shape running awake by auto
    show ?thesis
    proof (cases "list_ex pausing es")
      case True
      then have "es \<noteq> []" by auto
      with True flags handled(1) Cons shape running awake show ?thesis
        by (simp add: loop_measure_def)
    next
      case False
      have "fresh_steps y \<le> 3"
        by (simp add: fresh_steps_def split: option.splits)
      with False flags handled(1) Cons shape running awake show ?thesis
        by (auto simp: loop_measure_def)
    qed
  qed
  with handled(2) show "(snd xb, rn) \<in> measure (\<lambda>rn. loop_measure (rn_runtime rn))"
    by simp
qed

declare run_loop.simps [simp del]

text \<open>\<open>runUntilPause\<close>: the loop, then the \<open>if\<close> that follows it.\<close>

definition runUntilPause :: "dialogue_runner \<Rightarrow> dialogue_runner" where
  "runUntilPause rn =
     (let rn1 = run_loop rn in
      if isDialogueComplete (rn_runtime rn1) then
        emit (rn1\<lparr> rn_state := (rn_state rn1)\<lparr> st_isComplete := True, st_isRunning := False \<rparr> \<rparr>)
          RunnerDialogueComplete
      else rn1)"

definition rn_start :: "dialogue_runner \<Rightarrow> string \<Rightarrow> dialogue_runner" where
  "rn_start rn nodeName =
     (let rn1 = rn\<lparr> rn_stopped := False,
                     rn_state := \<lparr> st_currentNode = Some nodeName, st_isRunning = True,
                                   st_isWaitingForOption = False, st_isComplete = False,
                                   st_lastEvent = None \<rparr> \<rparr>;
          rn2 = syncVariablesToRuntime rn1;
          rn3 = rn2\<lparr> rn_runtime := setNode (rn_runtime rn2) nodeName \<rparr>
      in runUntilPause rn3)"

text \<open>
  \<open>continue\<close> and \<open>selectOption\<close> throw: the model returns the error raised, if
  any, and the runner as the call leaves it.
\<close>

datatype runner_error =
    CannotContinueWhileWaiting
  | DialogueAlreadyComplete
  | NotWaitingForSelection
  | RuntimeError runtime_error

definition rn_continue :: "dialogue_runner \<Rightarrow> runner_error option \<times> dialogue_runner" where
  "rn_continue rn =
     (if st_isWaitingForOption (rn_state rn) then (Some CannotContinueWhileWaiting, rn)
      else if st_isComplete (rn_state rn) then (Some DialogueAlreadyComplete, rn)
      else (None, runUntilPause rn))"

definition rn_selectOption :: "dialogue_runner \<Rightarrow> int \<Rightarrow> runner_error option \<times> dialogue_runner" where
  "rn_selectOption rn optionId =
     (if st_isWaitingForOption (rn_state rn) then
        (case setSelectedOption (rn_runtime rn) optionId of
           (Some e, rt') \<Rightarrow> (Some (RuntimeError e), rn\<lparr> rn_runtime := rt' \<rparr>)
         | (None, rt') \<Rightarrow>
             (None,
              runUntilPause
                (rn\<lparr> rn_runtime := rt',
                     rn_state := (rn_state rn)\<lparr> st_isWaitingForOption := False \<rparr> \<rparr>)))
      else (Some NotWaitingForSelection, rn))"

section \<open>Runs of the reference runtime\<close>

text \<open>\<open>steps n r\<close>: the results of \<open>n\<close> successive calls of \<open>continue()\<close>, and the final state.\<close>

fun steps ::
    "nat \<Rightarrow> dialogue_tree_runtime \<Rightarrow> runtime_event option list \<times> dialogue_tree_runtime" where
  "steps 0 r = ([], r)"
| "steps (Suc n) r =
     (case rt_continue r of
        (event, r') \<Rightarrow> (case steps n r' of (events, r'') \<Rightarrow> (event # events, r'')))"

text \<open>
  The calls of the runtime contract that change the state, other than \<open>reset\<close> and
  \<open>loadProgram\<close>. (The getters change nothing.)
\<close>

datatype runtime_op =
    OpContinue
  | OpSetNode string
  | OpSetSelectedOption int
  | OpSetVariable string variable_value

fun apply_op :: "dialogue_tree_runtime \<Rightarrow> runtime_op \<Rightarrow> dialogue_tree_runtime" where
  "apply_op r OpContinue = snd (rt_continue r)"
| "apply_op r (OpSetNode nodeName) = setNode r nodeName"
| "apply_op r (OpSetSelectedOption optionId) = snd (setSelectedOption r optionId)"
| "apply_op r (OpSetVariable name v) = rt_setVariable r name v"

text \<open>
  An option set is pending when one is cached and the runtime waits for the selection;
  its choices are those of the cache.
\<close>

definition option_set_pending :: "dialogue_tree_runtime \<Rightarrow> bool" where
  "option_set_pending r = (optionCache r \<noteq> None \<and> waitingForOption r)"

definition pending_choices :: "dialogue_tree_runtime \<Rightarrow> player_choice list" where
  "pending_choices r = (case optionCache r of None \<Rightarrow> [] | Some cache \<Rightarrow> cache_choices cache)"

text \<open>The graph of the linear scenario: A says "Welcome" and leads to B, B says "Farewell".\<close>

definition chain_tree :: dialogue_tree where
  "chain_tree =
     \<lparr> tree_id = ''demo'', tree_title = Some ''Demo'', startNodeId = ''A'',
       nodes = [''A'' \<mapsto> NpcNode ''A'' (Some ''Guide'') ''Welcome'' None None (Some ''B''),
                ''B'' \<mapsto> NpcNode ''B'' None ''Farewell'' None None None] \<rparr>"

text \<open>A graph whose start node is missing, though node A is there.\<close>

definition stray_tree :: dialogue_tree where
  "stray_tree =
     \<lparr> tree_id = ''stray'', tree_title = None, startNodeId = ''Z'',
       nodes = [''A'' \<mapsto> NpcNode ''A'' None ''Alpha'' None None None] \<rparr>"

text \<open>The shop of the test suite: a choice node with two choices, each leading to a line.\<close>

definition buyChoice :: player_choice where
  "buyChoice =
     \<lparr> choice_id = ''buy'', choice_text = ''Buy'', choice_nextNodeId = Some ''npc_buy'',
       choice_lineId = None, choice_enabled = None \<rparr>"

definition chatChoice :: player_choice where
  "chatChoice =
     \<lparr> choice_id = ''chat'', choice_text = ''Chat'', choice_nextNodeId = Some ''npc_chat'',
       choice_lineId = None, choice_enabled = None \<rparr>"

definition shop_tree :: dialogue_tree where
  "shop_tree =
     \<lparr> tree_id = ''shop'', tree_title = Some ''Shop'', startNodeId = ''player'',
       nodes = [''player'' \<mapsto> PlayerNode ''player'' [buyChoice, chatChoice],
                ''npc_buy'' \<mapsto> NpcNode ''npc_buy'' None ''Here are the wares.'' None None None,
                ''npc_chat'' \<mapsto> NpcNode ''npc_chat'' None ''Gossip time.'' None None None] \<rparr>"

text \<open>The shop's runtime once the option set has been handed out.\<close>

definition shop_waiting :: dialogue_tree_runtime where
  "shop_waiting = snd (steps 3 (new_runtime shop_tree))"

section \<open>Runs of the runner\<close>

text \<open>Runners with every option left to its default, over the shop and over the chain.\<close>

definition shop_runner :: dialogue_runner where
  "shop_runner = new_runner (new_runtime shop_tree) None None None"

definition chain_runner :: dialogue_runner where
  "chain_runner = new_runner (new_runtime chain_tree) None None None"

text \<open>The chain played to its end: started at A, continued after each of the two lines.\<close>

definition finished_runner :: dialogue_runner where
  "finished_runner = snd (rn_continue (snd (rn_continue (rn_start chain_runner ''A''))))"

text \<open>A line table with a line whose text is empty, and a runner that uses it.\<close>

definition blank_lines :: "string \<rightharpoonup> line_entry" where
  "blank_lines =
     [''blank'' \<mapsto> \<lparr> entry_id = ''blank'', entry_text = [], entry_metadata = None \<rparr>,
      ''hello'' \<mapsto> \<lparr> entry_id = ''hello'', entry_text = ''Hello, {0}!'', entry_metadata = None \<rparr>]"

definition blank_runner :: dialogue_runner where
  "blank_runner = new_runner (new_runtime chain_tree) (Some blank_lines) None None"

text \<open>The public operations of the runner, and the part of the state invariant that \<open>stop\<close> keeps.\<close>

datatype runner_op = OpStart string | OpRunnerContinue | OpSelectOption int | OpStop | OpReset

fun apply_runner_op :: "dialogue_runner \<Rightarrow> runner_op \<Rightarrow> dialogue_runner" where
  "apply_runner_op rn (OpStart nodeName) = rn_start rn nodeName"
| "apply_runner_op rn OpRunnerContinue = snd (rn_continue rn)"
| "apply_runner_op rn (OpSelectOption optionId) = snd (rn_selectOption rn optionId)"
| "apply_runner_op rn OpStop = rn_stop rn"
| "apply_runner_op rn OpReset = rn_reset rn"

definition complete_not_running :: "runner_state \<Rightarrow> bool" where
  "complete_not_running s = (st_isComplete s \<longrightarrow> \<not> st_isRunning s)"

text \<open>The test suite's runner for commands: durable storage seeded with two game flags.\<close>

definition gold_runner :: dialogue_runner where
  "gold_runner =
     new_runner
       (new_runtime \<lparr> tree_id = ''intro'', tree_title = None, startNodeId = ''intro'',
                      nodes = Map.empty \<rparr>)
       None None
       (Some [(''stat_gold'', VNum (Finite 100)), (''quest_dragon'', VStr ''started'')])"

section \<open>The specification's reading of substitution and of value parsing\<close>

text \<open>
  Substitution as the specification words it: the first occurrence of the placeholder is
  replaced by the substitution, character for character.
\<close>

definition replace_first_verbatim :: "string \<Rightarrow> string \<Rightarrow> string \<Rightarrow> string" where
  "replace_first_verbatim s pat rep =
     (case index_split pat [] s of None \<Rightarrow> s | Some p \<Rightarrow> fst p @ rep @ snd p)"

definition applySubstitutions_spec :: "string \<Rightarrow> string list \<Rightarrow> string" where
  "applySubstitutions_spec text subs =
     foldl (\<lambda>result p. replace_first_verbatim result (placeholder (fst p)) (snd p)) text
       (enumerate 0 subs)"

text \<open>
  \<open>first_at pat pre post\<close>: in \<open>pre @ pat @ post\<close> the pattern does not occur at any
  position before the end of \<open>pre\<close>, so its first occurrence is the one written out.
\<close>

definition first_at :: "string \<Rightarrow> string \<Rightarrow> string \<Rightarrow> bool" where
  "first_at pat pre post =
     list_all (\<lambda>k. \<not> starts_with (drop k (pre @ pat @ post)) pat) [0 ..< length pre]"

definition owe_lines :: "string \<rightharpoonup> line_entry" where
  "owe_lines =
     [''owe'' \<mapsto> \<lparr> entry_id = ''owe'', entry_text = ''You owe {0}'', entry_metadata = None \<rparr>,
      ''twice'' \<mapsto> \<lparr> entry_id = ''twice'', entry_text = ''{0} and {0}'', entry_metadata = None \<rparr>]"

text \<open>
  Value parsing as the specification words it: a boolean for \<open>true\<close> and \<open>false\<close>, a
  number for a value that is numeric (the whole value is a numeric literal), and otherwise
  a quoted or bare string.
\<close>

definition is_numeric :: "string \<Rightarrow> bool" where
  "is_numeric s = (case scan_number s of None \<Rightarrow> False | Some p \<Rightarrow> snd p = [])"

definition parseValue_spec :: "string \<Rightarrow> variable_value" where
  "parseValue_spec s =
     (if s = ''true'' then VBool True
      else if s = ''false'' then VBool False
      else if is_numeric s then VNum (parseFloat s)
      else if is_quoted s then VStr (slice_inner s)
      else VStr s)"

text \<open>
  The set command in other words, with the language's \<open>parseFloat\<close> deciding what is a
  number. The name is the first argument without one leading dollar sign. The value text
  is the other arguments with one space between neighbours. A value is quoted by a
  character when it starts and ends with it, and a quoted value stands for what is
  between its first and its last character.
\<close>

definition set_name :: "string \<Rightarrow> string" where
  "set_name a = (if take 1 a = ''$'' then drop 1 a else a)"

definition spaced :: "string list \<Rightarrow> string" where
  "spaced vs = drop 1 (concat (map (\<lambda>v. CHR '' '' # v) vs))"

definition quoted_by :: "char \<Rightarrow> string \<Rightarrow> bool" where
  "quoted_by q v = (v \<noteq> [] \<and> hd v = q \<and> last v = q)"

definition unquoted :: "string \<Rightarrow> string" where
  "unquoted v = take (length v - 2) (drop 1 v)"

definition parseValue_prefix :: "string \<Rightarrow> variable_value" where
  "parseValue_prefix v =
     (if v = ''true'' then VBool True
      else if v = ''false'' then VBool False
      else if parseFloat v \<noteq> NaN then VNum (parseFloat v)
      else if quoted_by (CHR 0x22) v \<or> quoted_by (CHR 0x27) v then VStr (unquoted v)
      else VStr v)"

text \<open>
  \<open>literal_goes_on rest\<close>: the text after a run of digits could still belong to the
  numeric literal (a further digit, the point, or the letter of an exponent).
\<close>

definition literal_goes_on :: "string \<Rightarrow> bool" where
  "literal_goes_on rest =
     (case rest of
        [] \<Rightarrow> False
      | c # r \<Rightarrow> is_digit c \<or> c = CHR ''.'' \<or> c = CHR ''e'' \<or> c = CHR ''E'')"

section \<open>Basic facts\<close>

lemma map_get_map_set: "map_get (map_set m k v) k = Some v"
  by (induction m) (auto simp: map_get_def)

lemma complete_no_event: "isComplete r \<Longrightarrow> rt_continue r = (None, r)"
  by (simp add: rt_continue_def)

lemma steps_complete: "isComplete r \<Longrightarrow> steps n r = (replicate n None, r)"
  by (induction n) (simp_all add: complete_no_event)

lemma steps_add:
  "steps (m + n) r =
     (fst (steps m r) @ fst (steps n (snd (steps m r))), snd (steps n (snd (steps m r))))"
  by (induction m arbitrary: r) (simp_all split: prod.splits)

lemmas rt_defs =
  rt_continue_def populateEventsForCurrentNode_def populate_node_def push_event_def
  after_event_def or_else_def new_runtime_def to_option_info_def

section \<open>The linear scenario\<close>

lemma chain_nine_steps:
  "fst (steps 9 (new_runtime chain_tree)) =
     [Some (NodeStartEvent ''A''), Some (PrepareForLinesEvent [''A'']),
      Some (LineEvent ''A'' []), Some (NodeCompleteEvent ''A''),
      Some (NodeStartEvent ''B''), Some (PrepareForLinesEvent [''B'']),
      Some (LineEvent ''B'' []), Some (NodeCompleteEvent ''B''),
      Some DialogueCompleteEvent]
   \<and> isComplete (snd (steps 9 (new_runtime chain_tree)))"
  by (simp add: eval_nat_numeral rt_defs chain_tree_def Let_def)

text \<open>
  C5. On the graph with node A ("Welcome", next B) and node B ("Farewell", no next),
  stepping the reference runtime from its start node A yields node_start(A),
  prepare_for_lines([A]), line(A), node_complete(A), node_start(B),
  prepare_for_lines([B]), line(B), node_complete(B), dialogue_complete, in this order,
  and every later call of \<open>continue()\<close>, however many, returns no event.
\<close>

theorem linear_chain_events:
  "fst (steps (9 + n) (new_runtime chain_tree)) =
     [Some (NodeStartEvent ''A''), Some (PrepareForLinesEvent [''A'']),
      Some (LineEvent ''A'' []), Some (NodeCompleteEvent ''A''),
      Some (NodeStartEvent ''B''), Some (PrepareForLinesEvent [''B'']),
      Some (LineEvent ''B'' []), Some (NodeCompleteEvent ''B''),
      Some DialogueCompleteEvent] @ replicate n None"
  using chain_nine_steps by (simp add: steps_add steps_complete)

section \<open>Completion is reported once\<close>

lemma apply_op_complete: "isComplete r \<Longrightarrow> isComplete (apply_op r op)"
  by (cases op)
    (simp_all add: complete_no_event setNode_def setSelectedOption_def rt_setVariable_def
      push_event_def split: option.splits)

lemma ops_complete: "isComplete r \<Longrightarrow> isComplete (foldl apply_op r ops)"
  by (induction ops arbitrary: r) (simp_all add: apply_op_complete)

lemma continue_complete:
  "rt_continue r = (Some DialogueCompleteEvent, r') \<Longrightarrow> isComplete r'"
  by (auto simp: rt_continue_def after_event_def Let_def split: if_splits list.splits)

text \<open>
  C3. Once \<open>continue()\<close> has returned \<open>dialogue_complete\<close>, then after any sequence of
  further calls of \<open>continue\<close>, \<open>setNode\<close>, \<open>setSelectedOption\<close> and
  \<open>setVariable\<close> (so without \<open>reset\<close> or \<open>loadProgram\<close>) the next
  \<open>continue()\<close> returns no event. The sequence is arbitrary, so this holds for every
  step call after completion, and \<open>dialogue_complete\<close> is not returned a second time.
\<close>

theorem dialogue_complete_at_most_once:
  assumes "rt_continue r = (Some DialogueCompleteEvent, r')"
  shows "fst (rt_continue (foldl apply_op r' ops)) = None"
proof -
  from assms have "isComplete r'"
    by (rule continue_complete)
  then have "isComplete (foldl apply_op r' ops)"
    by (rule ops_complete)
  then show ?thesis
    by (simp add: complete_no_event)
qed

lemma stray_first_step:
  "rt_continue (new_runtime stray_tree) =
     (Some DialogueCompleteEvent,
      (new_runtime stray_tree)\<lparr> isComplete := True \<rparr>)"
  by (simp add: rt_defs stray_tree_def)

theorem dialogue_complete_at_most_once_witness:
  "fst (rt_continue (new_runtime stray_tree)) = Some DialogueCompleteEvent
   \<and> fst (rt_continue
            (foldl apply_op (snd (rt_continue (new_runtime stray_tree)))
               [OpContinue, OpSetNode ''A'', OpContinue])) = None"
  using dialogue_complete_at_most_once
    [OF stray_first_step, of "[OpContinue, OpSetNode ''A'', OpContinue]"]
  by (simp add: stray_first_step)

section \<open>Selecting an option\<close>

text \<open>
  C6. \<open>setSelectedOption(i)\<close> raises exactly when no option set is pending or \<open>i\<close> is
  not the index of one of the pending choices. When it raises, the state is the one before
  the call. When it returns, the waiting flag is cleared, the chosen choice's destination
  is the pending next position, a \<open>node_complete\<close> event for the choice node is added
  at the end of the queue, and the cache is dropped.
\<close>

theorem setSelectedOption_contract:
  "(fst (setSelectedOption r i) \<noteq> None) =
     (\<not> option_set_pending r \<or> \<not> (0 \<le> i \<and> i < int (length (pending_choices r))))
   \<and> (fst (setSelectedOption r i) \<noteq> None \<longrightarrow> snd (setSelectedOption r i) = r)
   \<and> (fst (setSelectedOption r i) = None \<longrightarrow>
        (\<exists>cache. optionCache r = Some cache \<and>
           snd (setSelectedOption r i) =
             r\<lparr> waitingForOption := False,
                pendingNextNodeId := choice_nextNodeId (cache_choices cache ! nat i),
                pendingEvents := pendingEvents r @ [NodeCompleteEvent (cache_nodeId cache)],
                optionCache := None \<rparr>))"
  by (auto simp: setSelectedOption_def option_set_pending_def pending_choices_def
      choice_at_def push_event_def split: option.splits)

lemma shop_waiting_eq:
  "shop_waiting =
     (new_runtime shop_tree)
       \<lparr> waitingForOption := True, startedNodes := {''player''},
         optionCache := Some \<lparr> cache_choices = [buyChoice, chatChoice], cache_nodeId = ''player'' \<rparr> \<rparr>"
  by (simp add: shop_waiting_def eval_nat_numeral rt_defs shop_tree_def Let_def)

theorem setSelectedOption_contract_witness:
  "option_set_pending shop_waiting
   \<and> length (pending_choices shop_waiting) = 2
   \<and> fst (setSelectedOption shop_waiting 1) = None
   \<and> snd (setSelectedOption shop_waiting 1) =
       shop_waiting\<lparr> waitingForOption := False, pendingNextNodeId := Some ''npc_chat'',
                     pendingEvents := [NodeCompleteEvent ''player''], optionCache := None \<rparr>
   \<and> fst (setSelectedOption shop_waiting 2) = Some (InvalidOptionId 2)
   \<and> snd (setSelectedOption shop_waiting 2) = shop_waiting
   \<and> fst (setSelectedOption shop_waiting (- 1)) = Some (InvalidOptionId (- 1))
   \<and> fst (setSelectedOption (new_runtime shop_tree) 0) = Some NotWaitingForOption"
  using setSelectedOption_contract [of shop_waiting 1]
    setSelectedOption_contract [of shop_waiting 2]
  by (simp add: shop_waiting_eq setSelectedOption_def choice_at_def option_set_pending_def
      pending_choices_def push_event_def new_runtime_def chatChoice_def)

section \<open>Reset\<close>

lemma map_set_has_key: "name \<in> fst ` set (map_set m name v)"
  by (induction m) force+

text \<open>
  C2. \<open>reset()\<close> puts the position back to the tree's start node and empties the event
  queue, the option cache and the set of started nodes, but it does not touch the variable
  working set: a variable written before \<open>reset()\<close> is still returned by
  \<open>getVariable\<close> and still listed by \<open>getVariableNames\<close> after it.
\<close>

theorem reset_keeps_working_set:
  "currentNodeId (rt_reset (rt_setVariable r name v)) = Some (startNodeId (tree r))
   \<and> pendingEvents (rt_reset (rt_setVariable r name v)) = []
   \<and> optionCache (rt_reset (rt_setVariable r name v)) = None
   \<and> startedNodes (rt_reset (rt_setVariable r name v)) = {}
   \<and> variables (rt_reset (rt_setVariable r name v)) = variables (rt_setVariable r name v)
   \<and> rt_getVariable (rt_reset (rt_setVariable r name v)) name = Some v
   \<and> name \<in> set (rt_getVariableNames (rt_reset (rt_setVariable r name v)))"
  by (simp add: rt_reset_def rt_setVariable_def rt_getVariable_def rt_getVariableNames_def
      map_get_map_set map_keys_def map_set_has_key)

section \<open>The execution state\<close>

lemmas rn_defs =
  rn_start_def runUntilPause_def run_loop.simps handleRuntimeEvent_def handleLine_def
  handleOptions_def handleCommand_def emit_def syncVariablesToRuntime_def setNode_def
  isDialogueComplete_def new_runner_def initial_state_def getState_def rn_stop_def
  rn_continue_def text_or_missing_def getLine_def localize_option_def

text \<open>
  C1. The execution state can hold \<open>isWaitingForOption\<close> together with
  \<open>isComplete\<close>, and without \<open>isRunning\<close>. Starting the shop at its choice node
  pauses with the option set; \<open>stop()\<close> then sets \<open>isComplete\<close> and clears
  \<open>isRunning\<close> but leaves \<open>isWaitingForOption\<close> set. Likewise \<open>continue()\<close> on
  a runner that was never started reaches the option set with \<open>isRunning\<close> still
  false.
\<close>

theorem stop_while_waiting_keeps_flag:
  "getState (rn_stop (rn_start shop_runner ''player'')) =
     \<lparr> st_currentNode = Some ''player'', st_isRunning = False, st_isWaitingForOption = True,
       st_isComplete = True,
       st_lastEvent = Some (OptionsEvent
         [\<lparr> opt_id = 0, opt_lineId = ''buy'', opt_enabled = True,
            opt_destinationNode = Some ''npc_buy'' \<rparr>,
          \<lparr> opt_id = 1, opt_lineId = ''chat'', opt_enabled = True,
            opt_destinationNode = Some ''npc_chat'' \<rparr>]) \<rparr>
   \<and> fst (rn_continue shop_runner) = None
   \<and> st_isWaitingForOption (getState (snd (rn_continue shop_runner)))
   \<and> st_isRunning (getState (snd (rn_continue shop_runner))) = False"
  by (simp add: shop_runner_def rn_defs rt_defs shop_tree_def Let_def buyChoice_def
      chatChoice_def)

text \<open>
  Each public operation keeps \<open>isComplete \<longrightarrow> \<not> isRunning\<close>: a context call, a handled
  event, the loop, and so \<open>start\<close>, \<open>continue\<close> and \<open>selectOption\<close>.
\<close>

lemma action_keeps:
  "complete_not_running (rn_state rn) \<Longrightarrow>
     complete_not_running (rn_state (apply_ctx_action rn a))"
  by (cases a) (simp_all add: apply_ctx_action_def rn_setVariable_def run_statements_def
      setVariable_statements_def storage_write_def runtime_write_def rn_stop_def complete_not_running_def)

lemma actions_keep:
  "complete_not_running (rn_state rn) \<Longrightarrow>
     complete_not_running (rn_state (foldl apply_ctx_action rn acts))"
  by (induction acts arbitrary: rn) (simp_all add: action_keeps)

lemma handle_keeps:
  "complete_not_running (rn_state rn) \<Longrightarrow>
     complete_not_running (rn_state (snd (handleRuntimeEvent rn ev)))"
proof (cases ev)
  case (CommandEvent cmd)
  assume "complete_not_running (rn_state rn)"
  then have "complete_not_running
      (rn_state (foldl apply_ctx_action rn (snd (dispatch (rn_commandDispatcher rn) cmd))))"
    by (rule actions_keep)
  with CommandEvent show ?thesis
    by (simp add: handleRuntimeEvent_def handleCommand_def Let_def emit_def)
qed (simp_all add: handleRuntimeEvent_def handleLine_def handleOptions_def emit_def Let_def
    complete_not_running_def)

lemma run_loop_keeps:
  "complete_not_running (rn_state rn) \<Longrightarrow> complete_not_running (rn_state (run_loop rn))"
proof (induction rn rule: run_loop.induct)
  case (1 rn)
  show ?case
  proof (cases "\<not> rn_stopped rn \<and> \<not> isDialogueComplete (rn_runtime rn)")
    case False
    with "1.prems" show ?thesis by (auto simp: run_loop.simps [of rn])
  next
    case go: True
    obtain x rt' where c: "rt_continue (rn_runtime rn) = (x, rt')"
      by (cases "rt_continue (rn_runtime rn)")
    show ?thesis
    proof (cases x)
      case None
      with go c 1 show ?thesis by (simp add: run_loop.simps [of rn])
    next
      case (Some ev)
      let ?rn1 = "rn\<lparr>rn_runtime := rt', rn_state := (rn_state rn)\<lparr>st_lastEvent := Some ev\<rparr>\<rparr>"
      let ?h = "handleRuntimeEvent ?rn1 ev"
      have "complete_not_running (rn_state ?rn1)"
        using "1.prems" by (simp add: complete_not_running_def)
      then have k: "complete_not_running (rn_state (snd ?h))" by (rule handle_keeps)
      show ?thesis
      proof (cases "fst ?h")
        case True
        with go c Some k show ?thesis by (simp add: run_loop.simps [of rn] Let_def)
      next
        case False
        have "complete_not_running (rn_state (run_loop (snd ?h)))"
          using "1.IH" [OF go c [symmetric] Some refl refl False] k by simp
        with go c Some False show ?thesis by (simp add: run_loop.simps [of rn] Let_def)
      qed
    qed
  qed
qed

lemma runUntilPause_keeps:
  "complete_not_running (rn_state rn) \<Longrightarrow>
     complete_not_running (rn_state (runUntilPause rn))"
  using run_loop_keeps [of rn]
  by (simp add: runUntilPause_def Let_def emit_def complete_not_running_def)

lemma op_keeps:
  "complete_not_running (rn_state rn) \<Longrightarrow>
     complete_not_running (rn_state (apply_runner_op rn op))"
proof (cases op)
  case (OpStart nodeName)
  have "complete_not_running (rn_state (runUntilPause s))" if "\<not> st_isComplete (rn_state s)" for s
    using that by (intro runUntilPause_keeps) (simp add: complete_not_running_def)
  with OpStart show ?thesis
    by (simp add: rn_start_def Let_def syncVariablesToRuntime_def)
next
  case OpRunnerContinue
  assume "complete_not_running (rn_state rn)"
  with OpRunnerContinue show ?thesis
    by (simp add: rn_continue_def runUntilPause_keeps)
next
  case (OpSelectOption optionId)
  assume a: "complete_not_running (rn_state rn)"
  then have "complete_not_running
      (rn_state (runUntilPause
         (rn\<lparr>rn_runtime := rt', rn_state := (rn_state rn)\<lparr>st_isWaitingForOption := False\<rparr>\<rparr>)))"
    for rt'
    by (intro runUntilPause_keeps) (simp add: complete_not_running_def)
  with OpSelectOption a show ?thesis
    by (simp add: rn_selectOption_def split: prod.splits option.splits)
next
  case OpStop
  then show ?thesis by (simp add: rn_stop_def complete_not_running_def)
next
  case OpReset
  then show ?thesis by (simp add: rn_reset_def initial_state_def complete_not_running_def)
qed

text \<open>
  What does hold of every state that the public operations reach from a new runner, in
  any order: a complete dialogue is not running.
\<close>

lemma complete_never_running:
  "complete_not_running (rn_state (foldl apply_runner_op (new_runner runtime lp d vs) ops))"
proof -
  have "complete_not_running (rn_state (foldl apply_runner_op rn ops))"
    if "complete_not_running (rn_state rn)" for rn
    using that by (induction ops arbitrary: rn) (simp_all add: op_keeps)
  then show ?thesis
    by (simp add: new_runner_def initial_state_def complete_not_running_def)
qed

section \<open>Starting over a finished runtime\<close>

lemma sync_complete:
  "isComplete (foldl (\<lambda>r p. rt_setVariable r (fst p) (snd p)) r vs) = isComplete r"
  by (induction vs arbitrary: r) (simp_all add: rt_setVariable_def)

text \<open>
  C8. When the runtime already reports the dialogue complete, \<open>start(nodeName)\<close> takes
  no event from it: the runtime is left as \<open>setNode\<close> puts it after the variables were
  synchronised, no last event is recorded, the state is complete and not running, and one
  \<open>dialogueComplete\<close> event is emitted.
\<close>

theorem start_on_completed_runtime:
  assumes "isDialogueComplete (rn_runtime rn)"
  shows "rn_runtime (rn_start rn nodeName) =
           setNode (rn_runtime (syncVariablesToRuntime rn)) nodeName
    \<and> getState (rn_start rn nodeName) =
        \<lparr> st_currentNode = Some nodeName, st_isRunning = False,
          st_isWaitingForOption = False, st_isComplete = True, st_lastEvent = None \<rparr>
    \<and> rn_emitted (rn_start rn nodeName) = rn_emitted rn @ [RunnerDialogueComplete]"
  using assms
  by (simp add: rn_start_def runUntilPause_def run_loop.simps [of "_\<lparr>rn_runtime := _\<rparr>"]
      Let_def syncVariablesToRuntime_def setNode_def isDialogueComplete_def sync_complete
      emit_def getState_def)

lemma finished_complete: "isDialogueComplete (rn_runtime finished_runner)"
  by (simp add: finished_runner_def chain_runner_def rn_defs rt_defs chain_tree_def Let_def)

lemma finished_tree: "tree (rn_runtime finished_runner) = chain_tree"
  by (simp add: finished_runner_def chain_runner_def rn_defs rt_defs chain_tree_def Let_def)

theorem start_on_completed_runtime_witness:
  "isDialogueComplete (rn_runtime finished_runner)
   \<and> nodes (tree (rn_runtime finished_runner)) ''A'' =
       Some (NpcNode ''A'' (Some ''Guide'') ''Welcome'' None None (Some ''B''))
   \<and> getState (rn_start finished_runner ''A'') =
        \<lparr> st_currentNode = Some ''A'', st_isRunning = False, st_isWaitingForOption = False,
          st_isComplete = True, st_lastEvent = None \<rparr>
   \<and> rn_emitted (rn_start finished_runner ''A'') =
        rn_emitted finished_runner @ [RunnerDialogueComplete]"
  using start_on_completed_runtime [OF finished_complete, of "''A''"]
  by (simp add: finished_complete finished_tree chain_tree_def)

section \<open>Lines that resolve to nothing\<close>

text \<open>
  C10. A line event always pauses the runner. The line event it emits carries the text
  \<open>[Missing: <lineId>]\<close> when the provider has no line for the id, and also when the
  provider resolves the line to the empty string; a line resolved to a text that is not
  empty is emitted with that text.
\<close>

theorem empty_line_reported_missing:
  "fst (handleRuntimeEvent rn (LineEvent lineId subs))
   \<and> (getLine (rn_lineProvider rn) lineId subs = None
        \<or> map_option ll_text (getLine (rn_lineProvider rn) lineId subs) = Some [] \<longrightarrow>
      rn_emitted (snd (handleRuntimeEvent rn (LineEvent lineId subs))) =
        rn_emitted rn @
          [RunnerLine lineId (''[Missing: '' @ lineId @ '']'') subs
             (case getLine (rn_lineProvider rn) lineId subs of
                None \<Rightarrow> None
              | Some l \<Rightarrow> ll_metadata l)])
   \<and> (\<forall>l. getLine (rn_lineProvider rn) lineId subs = Some l \<and> ll_text l \<noteq> [] \<longrightarrow>
      rn_emitted (snd (handleRuntimeEvent rn (LineEvent lineId subs))) =
        rn_emitted rn @ [RunnerLine lineId (ll_text l) subs (ll_metadata l)])"
  by (auto simp: handleRuntimeEvent_def handleLine_def emit_def text_or_missing_def
      or_else_def Let_def)

lemma placeholder_0: "placeholder 0 = ''{0}''"
  by (simp add: placeholder_def show_nat.simps)

lemma hello_Ann: "js_replace ''Hello, {0}!'' ''{0}'' ''Ann'' = ''Hello, Ann!''"
  by (simp add: js_replace_def starts_with_def)

lemma blank_getLine:
  "getLine (rn_lineProvider blank_runner) ''blank'' [] =
     Some \<lparr> ll_text = [], ll_lineId = ''blank'', ll_substitutions = [], ll_metadata = None \<rparr>"
  "getLine (rn_lineProvider blank_runner) ''gone'' [] = None"
  "getLine (rn_lineProvider blank_runner) ''hello'' [''Ann''] =
     Some \<lparr> ll_text = ''Hello, Ann!'', ll_lineId = ''hello'', ll_substitutions = [''Ann''],
            ll_metadata = None \<rparr>"
  "rn_emitted blank_runner = []"
  by (simp_all add: blank_runner_def new_runner_def blank_lines_def getLine_def
      applySubstitutions_def placeholder_0 hello_Ann)

theorem empty_line_reported_missing_witness:
  "map_option ll_text (getLine (rn_lineProvider blank_runner) ''blank'' []) = Some []
   \<and> rn_emitted (snd (handleRuntimeEvent blank_runner (LineEvent ''blank'' []))) =
        [RunnerLine ''blank'' ''[Missing: blank]'' [] None]
   \<and> getLine (rn_lineProvider blank_runner) ''gone'' [] = None
   \<and> rn_emitted (snd (handleRuntimeEvent blank_runner (LineEvent ''gone'' []))) =
        [RunnerLine ''gone'' ''[Missing: gone]'' [] None]
   \<and> rn_emitted (snd (handleRuntimeEvent blank_runner (LineEvent ''hello'' [''Ann'']))) =
        [RunnerLine ''hello'' ''Hello, Ann!'' [''Ann''] None]"
proof -
  note spec = empty_line_reported_missing [of blank_runner]
  have "rn_emitted (snd (handleRuntimeEvent blank_runner (LineEvent ''blank'' []))) =
        [RunnerLine ''blank'' ''[Missing: blank]'' [] None]"
    using spec [of "''blank''" "[]"] by (simp add: blank_getLine)
  moreover have "rn_emitted (snd (handleRuntimeEvent blank_runner (LineEvent ''gone'' []))) =
        [RunnerLine ''gone'' ''[Missing: gone]'' [] None]"
    using spec [of "''gone''" "[]"] by (simp add: blank_getLine)
  moreover have
    "rn_emitted (snd (handleRuntimeEvent blank_runner (LineEvent ''hello'' [''Ann'']))) =
        [RunnerLine ''hello'' ''Hello, Ann!'' [''Ann''] None]"
    using spec [of "''hello''" "[''Ann'']"] by (simp add: blank_getLine)
  ultimately show ?thesis
    by (simp add: blank_getLine)
qed

section \<open>Writing a variable\<close>

text \<open>
  C4. After the runner's \<open>setVariable(name, v)\<close> the durable storage, the runtime's
  working set and the runner's own \<open>getVariable\<close> all return \<open>v\<close> for \<open>name\<close>.
  The call is the storage write followed by the runtime write: after the first statement
  alone the storage already holds \<open>v\<close> and the runtime is untouched. A handler's
  \<open>context.setVariable\<close> is this same call. The call takes no step: of the runtime only
  the working set changes, and the execution state is as before.
\<close>

theorem setVariable_write_through:
  "map_get (rn_variableStorage (rn_setVariable rn name v)) name = Some v
   \<and> rt_getVariable (rn_runtime (rn_setVariable rn name v)) name = Some v
   \<and> rn_getVariable (rn_setVariable rn name v) name = Some v
   \<and> setVariable_statements name v = [storage_write name v, runtime_write name v]
   \<and> map_get (rn_variableStorage (storage_write name v rn)) name = Some v
   \<and> rn_runtime (storage_write name v rn) = rn_runtime rn
   \<and> rn_setVariable rn name v = runtime_write name v (storage_write name v rn)
   \<and> apply_ctx_action rn (CtxSetVariable name v) = rn_setVariable rn name v
   \<and> rn_runtime (rn_setVariable rn name v) =
       (rn_runtime rn)\<lparr> variables := map_set (variables (rn_runtime rn)) name v \<rparr>
   \<and> rn_state (rn_setVariable rn name v) = rn_state rn"
  by (simp add: rn_setVariable_def run_statements_def setVariable_statements_def
      storage_write_def runtime_write_def rt_setVariable_def rt_getVariable_def
      rn_getVariable_def map_get_map_set apply_ctx_action_def)

section \<open>Placeholders in a line\<close>

lemma owe_replace:
  "js_replace ''You owe {0}'' ''{0}'' ''$$20'' = ''You owe $20''"
  "js_replace ''You owe {0}'' ''{0}'' ''$&'' = ''You owe {0}''"
  by (simp_all add: js_replace_def starts_with_def)

lemma owe_replace_verbatim:
  "replace_first_verbatim ''You owe {0}'' ''{0}'' ''$$20'' = ''You owe $$20''"
  "replace_first_verbatim ''You owe {0}'' ''{0}'' ''$&'' = ''You owe $&''"
  by (simp_all add: replace_first_verbatim_def starts_with_def)

text \<open>
  C9. \<open>getLine\<close> does not always put the substitution in the placeholder's place: for
  the line "You owe {0}" the substitution \<open>$$20\<close> comes out as "You owe $20", and the
  substitution \<open>$&\<close> comes out as "You owe {0}", the placeholder itself, because
  \<open>replace\<close> reads a dollar sign in its second argument as the start of a pattern.
  Replacing the first occurrence by the substitution as it is gives "You owe $$20" and
  "You owe $&".
\<close>

theorem substitution_dollar_patterns_expanded:
  "map_option ll_text (getLine owe_lines ''owe'' [''$$20'']) = Some ''You owe $20''
   \<and> map_option ll_text (getLine owe_lines ''owe'' [''$&'']) = Some ''You owe {0}''
   \<and> applySubstitutions_spec ''You owe {0}'' [''$$20''] = ''You owe $$20''
   \<and> applySubstitutions_spec ''You owe {0}'' [''$&''] = ''You owe $&''"
  by (simp add: getLine_def owe_lines_def applySubstitutions_def applySubstitutions_spec_def
      placeholder_0 owe_replace owe_replace_verbatim)

text \<open>
  What does hold: only the first occurrence of a placeholder is rewritten, and a
  substitution without a dollar sign is put in as it is.
\<close>

lemma index_split_first:
  "first_at pat pre post \<Longrightarrow> index_split pat acc (pre @ pat @ post) = Some (acc @ pre, post)"
proof (induction pre arbitrary: acc)
  case Nil
  show ?case
  proof (cases "pat @ post")
    case Nil
    then show ?thesis by simp
  next
    case (Cons c cs)
    have "starts_with (pat @ post) pat"
      by (simp add: starts_with_def)
    then have "index_split pat acc (pat @ post) = Some (acc, drop (length pat) (pat @ post))"
      unfolding Cons by simp
    then show ?thesis by simp
  qed
next
  case (Cons a pre)
  from Cons.prems
  have no_match: "\<not> starts_with (drop k (a # pre @ pat @ post)) pat"
    if "k < Suc (length pre)" for k
    using that by (auto simp: first_at_def list_all_iff less_Suc_eq)
  from no_match [of 0] have here: "\<not> starts_with ((a # pre) @ pat @ post) pat"
    by simp
  have "\<not> starts_with (drop k (pre @ pat @ post)) pat" if "k < length pre" for k
    using no_match [of "Suc k"] that by simp
  then have "list_all (\<lambda>k. \<not> starts_with (drop k (pre @ pat @ post)) pat) [0 ..< length pre]"
    by (simp add: list_all_iff)
  then have "first_at pat pre post"
    by (simp add: first_at_def)
  then have "index_split pat (acc @ [a]) (pre @ pat @ post) = Some ((acc @ [a]) @ pre, post)"
    by (rule Cons.IH)
  with here show ?case by simp
qed

lemma get_substitution_plain:
  "CHR ''$'' \<notin> set rep \<Longrightarrow> get_substitution matched pre post rep = rep"
  by (induction matched pre post rep rule: get_substitution.induct) auto

lemma applySubstitutions_snoc:
  "applySubstitutions text (subs @ [sub]) =
     js_replace (applySubstitutions text subs) (placeholder (length subs)) sub"
  by (simp add: applySubstitutions_def enumerate_append_eq)

lemma js_replace_first_only:
  "first_at pat pre post \<Longrightarrow> CHR ''$'' \<notin> set sub \<Longrightarrow>
     js_replace (pre @ pat @ post) pat sub = pre @ sub @ post"
  by (simp add: js_replace_def index_split_first get_substitution_plain)

lemma twice_replaced_once:
  "map_option ll_text (getLine owe_lines ''twice'' [''Ann'']) = Some ''Ann and {0}''"
proof -
  have "first_at ''{0}'' [] '' and {0}''"
    by (simp add: first_at_def)
  then have "js_replace ([] @ ''{0}'' @ '' and {0}'') ''{0}'' ''Ann'' = [] @ ''Ann'' @ '' and {0}''"
    by (rule js_replace_first_only) simp
  then show ?thesis
    by (simp add: getLine_def owe_lines_def applySubstitutions_def placeholder_0)
qed

section \<open>The built-in set command\<close>

lemmas scan_defs =
  parseFloat_def scan_number_def scan_unsigned_def is_space_def is_digit_def starts_with_def
  digits_value_def scan_exponent_def negate_number_def

lemmas round_defs =
  round_decimal_def round_binary64_def binary_exponent_def round_half_even_def pow2_def
  bit_length.simps Let_def

lemmas dispatch_defs =
  dispatch_def createDefaultDispatcher_def parseCommand_def trim_def tokenize_def
  toLowerCase_def to_lower_char_def upper_letters_def lower_letters_def map_get_def

lemma round_12: "round_decimal 12 0 = Finite 12"
  by (simp add: round_defs)

lemma round_150: "round_decimal 150 0 = Finite 150"
  by (simp add: round_defs)

lemma round_1e400: "round_decimal 1 400 = PosInfinity"
  by (simp add: round_defs)

lemma float_12abc: "parseFloat ''12abc'' = Finite 12"
  by (simp add: scan_defs round_12)

lemma scan_12abc: "scan_number ''12abc'' = Some (Finite 12, ''abc'')"
  by (simp add: scan_defs round_12)

lemma dispatch_12abc:
  "dispatch createDefaultDispatcher ''set $gold 12abc'' =
     (True, set_handler [''$gold'', ''12abc''])"
  by (simp add: dispatch_defs is_space_def)

text \<open>
  C7, as stated, fails: the command \<open>set $gold 12abc\<close> writes the number 12, though
  the value \<open>12abc\<close> is not numeric and the specification's reading gives the bare
  string.
\<close>

theorem set_value_prefix_counterexample:
  "dispatch createDefaultDispatcher ''set $gold 12abc'' =
     (True, [CtxSetVariable ''gold'' (VNum (Finite 12)), CtxContinue])
   \<and> is_numeric ''12abc'' = False
   \<and> parseValue_spec ''12abc'' = VStr ''12abc''"
  by (simp add: dispatch_12abc set_handler_def strip_dollar_def parseValue_def float_12abc
      isNaN_def parseValue_spec_def is_numeric_def scan_12abc is_quoted_def starts_with_def
      ends_with_def)

text \<open>The handler's helpers agree with their description in other words.\<close>

lemma strip_dollar_eq: "strip_dollar a = set_name a"
  by (cases a) (simp_all add: strip_dollar_def set_name_def)

lemma join_space_eq: "join_space vs = spaced vs"
  by (induction vs rule: join_space.induct) (simp_all add: spaced_def)

lemma is_quoted_eq: "is_quoted v = (quoted_by (CHR 0x22) v \<or> quoted_by (CHR 0x27) v)"
proof (cases v rule: rev_cases)
  case Nil
  then show ?thesis by (simp add: is_quoted_def quoted_by_def starts_with_def ends_with_def)
next
  case (snoc ys y)
  then show ?thesis
    by (cases ys) (auto simp: is_quoted_def quoted_by_def starts_with_def ends_with_def)
qed

lemma slice_inner_eq: "slice_inner v = unquoted v"
  by (simp add: slice_inner_def unquoted_def butlast_conv_take drop_Suc numeral_2_eq_2)

lemma digit_not_space: "is_digit c \<Longrightarrow> \<not> is_space c"
  by (auto simp: is_digit_def is_space_def)

lemma float_quoted:
  assumes "q = CHR 0x22 \<or> q = CHR 0x27"
  shows "parseFloat (q # rest) = NaN"
proof -
  from assms have "\<not> is_space q" "\<not> is_digit q"
    by (auto simp: is_space_def is_digit_def)
  with assms show ?thesis
    by (auto simp: parseFloat_def scan_number_def scan_unsigned_def starts_with_def)
qed

lemma quoted_not_number: "is_quoted v \<Longrightarrow> parseFloat v = NaN"
  by (cases v) (auto simp: is_quoted_def starts_with_def float_quoted)

lemma quoted_not_boolean: "is_quoted v \<Longrightarrow> v \<noteq> ''true'' \<and> v \<noteq> ''false''"
  by (auto simp: is_quoted_def starts_with_def)

lemma parseValue_prefix_eq: "parseValue v = parseValue_prefix v"
  using quoted_not_number [of v] quoted_not_boolean [of v]
  by (auto simp: parseValue_def parseValue_prefix_def isNaN_def Let_def is_quoted_eq [symmetric]
      slice_inner_eq)

lemma float_digits:
  assumes ws: "list_all is_space ws" and ds: "ds \<noteq> []" "list_all is_digit ds"
    and rest: "\<not> literal_goes_on rest"
  shows "parseFloat (ws @ ds @ rest) = round_decimal (digits_value ds) 0"
proof -
  from ds obtain d ds' where d: "ds = d # ds'" "is_digit d"
    by (cases ds) auto
  then have d_plain: "\<not> is_space d" "d \<noteq> CHR ''+''" "d \<noteq> CHR ''-''" "d \<noteq> CHR ''I''"
    by (auto simp: is_digit_def is_space_def)
  have skip: "dropWhile is_space (ws @ ds @ rest) = ds @ rest"
    using ws d d_plain by (simp add: dropWhile_append2 list_all_iff)
  have no_more: "takeWhile is_digit rest = []" "dropWhile is_digit rest = rest"
    using rest by (cases rest; simp add: literal_goes_on_def)+
  have run: "takeWhile is_digit (ds @ rest) = ds" "dropWhile is_digit (ds @ rest) = rest"
    using ds no_more by (simp_all add: takeWhile_append2 dropWhile_append2 list_all_iff)
  have not_inf: "\<not> starts_with (ds @ rest) ''Infinity''"
    using d d_plain by (simp add: starts_with_def)
  have su: "scan_unsigned (ds @ rest) = Some (round_decimal (digits_value ds) 0, rest)"
    using rest ds(1)
    by (simp add: scan_unsigned_def run not_inf literal_goes_on_def scan_exponent_def
        split: list.splits)
  have sn: "scan_number (ds @ rest) = scan_unsigned (ds @ rest)"
    using d d_plain by (simp add: scan_number_def)
  show ?thesis
    by (simp add: parseFloat_def skip sn su)
qed

lemma round_decimal_number: "round_decimal m k \<noteq> NaN"
  by (simp add: round_decimal_def round_binary64_def Let_def)

lemma digits_not_boolean:
  assumes "ds \<noteq> []" "list_all is_digit ds"
  shows "ws @ ds @ rest \<noteq> ''true'' \<and> ws @ ds @ rest \<noteq> ''false''"
proof -
  from assms obtain d where d: "d \<in> set (ws @ ds @ rest)" "is_digit d"
    by (cases ds) auto
  then have "d \<notin> set ''true''" "d \<notin> set ''false''"
    by (auto simp: is_digit_def)
  with d(1) show ?thesis by metis
qed

text \<open>
  C7, amended. Called with at least a name and a value argument, the \<open>set\<close> handler
  makes one \<open>setVariable\<close> call on its context, which is the runner's \<open>setVariable\<close>.
  The name is the first argument without one leading dollar sign. The value is the other
  arguments joined by single spaces, parsed as a boolean when it is \<open>true\<close> or
  \<open>false\<close>, as the number \<open>parseFloat\<close> returns when that is not NaN, and otherwise
  as a string: what is between the first and the last character when the value starts and
  ends with the same quote character, the value itself when not. \<open>parseFloat\<close> skips
  leading white space and ignores what follows the numeric literal: white space, then
  digits, then text that cannot continue the literal, is the number the digits denote,
  rounded to binary64. A value in quotes is never a number.
\<close>

theorem set_command_parses_prefix:
  "(2 \<le> length args \<longrightarrow>
      set_handler args =
        [CtxSetVariable (set_name (hd args)) (parseValue_prefix (spaced (tl args))),
         CtxContinue]
      \<and> foldl apply_ctx_action rn (set_handler args) =
          rn_setVariable rn (set_name (hd args)) (parseValue_prefix (spaced (tl args))))
   \<and> (list_all is_space ws \<and> ds \<noteq> [] \<and> list_all is_digit ds \<and> \<not> literal_goes_on rest \<longrightarrow>
        parseValue_prefix (ws @ ds @ rest) = VNum (round_decimal (digits_value ds) 0))
   \<and> (q = CHR 0x22 \<or> q = CHR 0x27 \<longrightarrow>
        parseValue_prefix [q] = VStr [] \<and> parseValue_prefix (q # inner @ [q]) = VStr inner)"
proof (intro conjI impI)
  assume "2 \<le> length args"
  then show "set_handler args =
      [CtxSetVariable (set_name (hd args)) (parseValue_prefix (spaced (tl args))), CtxContinue]"
    by (simp add: set_handler_def strip_dollar_eq join_space_eq parseValue_prefix_eq)
  then show "foldl apply_ctx_action rn (set_handler args) =
      rn_setVariable rn (set_name (hd args)) (parseValue_prefix (spaced (tl args)))"
    by (simp add: apply_ctx_action_def)
next
  assume a: "list_all is_space ws \<and> ds \<noteq> [] \<and> list_all is_digit ds \<and> \<not> literal_goes_on rest"
  then have "parseFloat (ws @ ds @ rest) = round_decimal (digits_value ds) 0"
    by (simp add: float_digits)
  with a digits_not_boolean [of ds ws rest]
  show "parseValue_prefix (ws @ ds @ rest) = VNum (round_decimal (digits_value ds) 0)"
    by (simp add: parseValue_prefix_def round_decimal_number)
next
  assume q: "q = CHR 0x22 \<or> q = CHR 0x27"
  then show "parseValue_prefix [q] = VStr []"
    by (auto simp: parseValue_prefix_def float_quoted quoted_by_def unquoted_def)
  from q show "parseValue_prefix (q # inner @ [q]) = VStr inner"
    by (auto simp: parseValue_prefix_def float_quoted quoted_by_def unquoted_def)
qed

lemma float_1e400: "parseFloat ''1e400'' = PosInfinity"
  by (simp add: scan_defs round_1e400)

lemma float_words: "parseFloat ''dragon slain'' = NaN"
  by (simp add: scan_defs)

theorem set_command_parses_prefix_witness:
  "set_handler [''$stat_gold'', ''150''] =
     [CtxSetVariable ''stat_gold'' (VNum (Finite 150)), CtxContinue]
   \<and> set_handler [''$quest'', ''dragon'', ''slain''] =
       [CtxSetVariable ''quest'' (VStr ''dragon slain''), CtxContinue]
   \<and> set_handler [''seen'', ''true''] = [CtxSetVariable ''seen'' (VBool True), CtxContinue]
   \<and> set_handler [''$gold'', ''12abc''] =
       [CtxSetVariable ''gold'' (VNum (Finite 12)), CtxContinue]
   \<and> set_handler [''$n'', CHR 0xA0 # ''12''] =
       [CtxSetVariable ''n'' (VNum (Finite 12)), CtxContinue]
   \<and> set_handler [''$q'', CHR 0x22 # ''hi there'' @ [CHR 0x22]] =
       [CtxSetVariable ''q'' (VStr ''hi there''), CtxContinue]
   \<and> set_handler [''$big'', ''1e400''] =
       [CtxSetVariable ''big'' (VNum PosInfinity), CtxContinue]"
proof -
  note spec = set_command_parses_prefix
  have gold: "parseValue_prefix ''150'' = VNum (Finite 150)"
    using spec [where ws = "[]" and ds = "''150''" and rest = "[]"]
    by (simp add: is_digit_def literal_goes_on_def digits_value_def round_150)
  have prefix: "parseValue_prefix ''12abc'' = VNum (Finite 12)"
    using spec [where ws = "[]" and ds = "''12''" and rest = "''abc''"]
    by (simp add: is_digit_def literal_goes_on_def digits_value_def round_12)
  have nbsp: "parseValue_prefix (CHR 0xA0 # ''12'') = VNum (Finite 12)"
    using spec [where ws = "[CHR 0xA0]" and ds = "''12''" and rest = "[]"]
    by (simp add: is_space_def is_digit_def literal_goes_on_def digits_value_def round_12)
  have quoted: "parseValue_prefix (CHR 0x22 # ''hi there'' @ [CHR 0x22]) = VStr ''hi there''"
    using spec [where q = "CHR 0x22" and inner = "''hi there''"] by simp
  have words: "parseValue_prefix ''dragon slain'' = VStr ''dragon slain''"
    by (simp add: parseValue_prefix_def float_words quoted_by_def)
  have flag: "parseValue_prefix ''true'' = VBool True"
    by (simp add: parseValue_prefix_def)
  have big: "parseValue_prefix ''1e400'' = VNum PosInfinity"
    by (simp add: parseValue_prefix_def float_1e400)
  have "set_handler [''$stat_gold'', ''150''] =
      [CtxSetVariable ''stat_gold'' (VNum (Finite 150)), CtxContinue]"
    using spec [where args = "[''$stat_gold'', ''150'']"]
    by (simp add: set_name_def spaced_def gold)
  moreover have "set_handler [''$quest'', ''dragon'', ''slain''] =
      [CtxSetVariable ''quest'' (VStr ''dragon slain''), CtxContinue]"
    using spec [where args = "[''$quest'', ''dragon'', ''slain'']"]
    by (simp add: set_name_def spaced_def words)
  moreover have "set_handler [''seen'', ''true''] =
      [CtxSetVariable ''seen'' (VBool True), CtxContinue]"
    using spec [where args = "[''seen'', ''true'']"]
    by (simp add: set_name_def spaced_def flag)
  moreover have "set_handler [''$gold'', ''12abc''] =
      [CtxSetVariable ''gold'' (VNum (Finite 12)), CtxContinue]"
    using spec [where args = "[''$gold'', ''12abc'']"]
    by (simp add: set_name_def spaced_def prefix)
  moreover have "set_handler [''$n'', CHR 0xA0 # ''12''] =
      [CtxSetVariable ''n'' (VNum (Finite 12)), CtxContinue]"
    using spec [where args = "[''$n'', CHR 0xA0 # ''12'']"]
    by (simp add: set_name_def spaced_def nbsp)
  moreover have "set_handler [''$q'', CHR 0x22 # ''hi there'' @ [CHR 0x22]] =
      [CtxSetVariable ''q'' (VStr ''hi there''), CtxContinue]"
    using spec [where args = "[''$q'', CHR 0x22 # ''hi there'' @ [CHR 0x22]]"] quoted
    by (simp add: set_name_def spaced_def)
  moreover have "set_handler [''$big'', ''1e400''] =
      [CtxSetVariable ''big'' (VNum PosInfinity), CtxContinue]"
    using spec [where args = "[''$big'', ''1e400'']"]
    by (simp add: set_name_def spaced_def big)
  ultimately show ?thesis
    by simp
qed

section \<open>A command that updates a variable\<close>

lemma dispatch_gold:
  "dispatch createDefaultDispatcher ''set $stat_gold 150'' =
     (True, [CtxSetVariable ''stat_gold'' (VNum (Finite 150)), CtxContinue])"
  by (simp add: dispatch_defs set_handler_def strip_dollar_def parseValue_def is_quoted_def
      ends_with_def isNaN_def scan_defs round_150)

text \<open>
  With the storage seeded with \<open>stat_gold = 100\<close>, the command event
  \<open>set $stat_gold 150\<close> is handled, does not pause the runner, and leaves 150 both in
  what the runner returns for \<open>stat_gold\<close> and in the runtime's working set.
\<close>

lemma command_updates_both_stores:
  "rn_getVariable (snd (handleRuntimeEvent gold_runner (CommandEvent ''set $stat_gold 150'')))
     ''stat_gold'' = Some (VNum (Finite 150))
   \<and> rt_getVariable
        (rn_runtime (snd (handleRuntimeEvent gold_runner (CommandEvent ''set $stat_gold 150''))))
        ''stat_gold'' = Some (VNum (Finite 150))
   \<and> rn_emitted (snd (handleRuntimeEvent gold_runner (CommandEvent ''set $stat_gold 150''))) =
       [RunnerCommand ''set $stat_gold 150'' True]
   \<and> fst (handleRuntimeEvent gold_runner (CommandEvent ''set $stat_gold 150'')) = False"
  by (simp add: handleRuntimeEvent_def handleCommand_def gold_runner_def new_runner_def
      dispatch_gold apply_ctx_action_def rn_setVariable_def run_statements_def
      setVariable_statements_def storage_write_def runtime_write_def rt_setVariable_def
      rt_getVariable_def rn_getVariable_def map_get_def emit_def new_runtime_def Let_def)

end
